theory Spec2Isabelle
  imports Complex_Main "HOL-Library.Sublist"
begin

section \<open>The expression compiler of math\_parser.js\<close>

text \<open>
  The parser works on JavaScript strings and numbers. A string is modelled as a
  \<open>char list\<close>, one \<open>char\<close> per code unit (the Latin-1 range). A JavaScript
  number is either \<open>NaN\<close> or some other double; the doubles themselves and their
  arithmetic belong to the JavaScript runtime, not to the repository, so they are a
  type parameter \<open>'d\<close> and a record of operations. What is fixed here is what the
  language fixes for every runtime: \<open>+ - * /\<close>, unary minus and the \<open>Math\<close>
  functions of one argument return \<open>NaN\<close> on a \<open>NaN\<close> operand, and
  \<open>undefined\<close> converts to \<open>NaN\<close>. The field \<open>of_count\<close> gives the double
  of a non-negative integer, as an integer literal or a loop counter denotes it.
\<close>

datatype 'd num = NaN | Val 'd

text \<open>
  The values a token or the evaluation stack can hold: \<open>undefined\<close> (what
  \<open>pop\<close> returns on an empty array), a number, a string (what \<open>+\<close> returns when
  an operand is an object) and the function \<open>Object\<close>, which the lookup
  \<open>CONSTANTS[name]\<close> finds for the name \<open>constructor\<close> on the prototype of the
  object literal.
\<close>

datatype 'd jsval = Undefined | Number "'d num" | Str string | ObjectCtor

record 'd runtime =
  parseFloat :: "string \<Rightarrow> 'd num"
  Math_PI :: "'d"
  Math_E :: "'d"
  fadd :: "'d \<Rightarrow> 'd \<Rightarrow> 'd num"
  fsub :: "'d \<Rightarrow> 'd \<Rightarrow> 'd num"
  fmul :: "'d \<Rightarrow> 'd \<Rightarrow> 'd num"
  fdiv :: "'d \<Rightarrow> 'd \<Rightarrow> 'd num"
  fneg :: "'d \<Rightarrow> 'd"
  Math_pow :: "'d num \<Rightarrow> 'd num \<Rightarrow> 'd num"
  Math_sin :: "'d \<Rightarrow> 'd num"
  Math_cos :: "'d \<Rightarrow> 'd num"
  Math_tan :: "'d \<Rightarrow> 'd num"
  Math_asin :: "'d \<Rightarrow> 'd num"
  Math_acos :: "'d \<Rightarrow> 'd num"
  Math_atan :: "'d \<Rightarrow> 'd num"
  Math_exp :: "'d \<Rightarrow> 'd num"
  Math_log :: "'d \<Rightarrow> 'd num"
  Math_log10 :: "'d \<Rightarrow> 'd num"
  Math_sqrt :: "'d \<Rightarrow> 'd num"
  Math_abs :: "'d \<Rightarrow> 'd num"
  ToString :: "'d jsval \<Rightarrow> string"
  StringToNumber :: "string \<Rightarrow> 'd num"
  of_count :: "nat \<Rightarrow> 'd"

datatype usign = neg | pos

text \<open>
  A token \<open>{type, value}\<close>: \<open>num\<close> with the value pushed at evaluation,
  \<open>var\<close>, \<open>op\<close> with its character (the two parentheses are \<open>op\<close> tokens
  too), \<open>unary\<close> and \<open>func\<close> with the function's name.
\<close>

datatype 'd token = TNum "'d jsval" | TVar | TOp char | TUnary usign | TFunc string

datatype error =
    EmptyExpression
  | MultipleEquals
  | UnknownName string
  | UnexpectedCharacter char
  | MismatchedParentheses
  | InvalidStructure
  | RootNotConverged
  | NoRootFound
  | KnownLimitInvalid
  | AreaInvalid
  | LimitNotConverged

text \<open>The message of each \<open>new Error(...)\<close> of the two files.\<close>

fun message :: "error \<Rightarrow> string" where
  "message EmptyExpression = ''Empty expression''"
| "message MultipleEquals = ''Multiple '' @ [CHR 39] @ ''='' @ [CHR 39] @ '' signs found''"
| "message (UnknownName name) = ''Unknown function or variable: '' @ name"
| "message (UnexpectedCharacter c) = ''Unexpected character: '' @ [c]"
| "message MismatchedParentheses = ''Mismatched parentheses''"
| "message InvalidStructure = ''Invalid expression structure''"
| "message RootNotConverged =
     ''Equation parser: Did not converge to a root. Try a different initial guess.''"
| "message NoRootFound =
     ''Did not converge to a root. Try a different initial guess or a valid equation.''"
| "message KnownLimitInvalid = ''Known limit is invalid.''"
| "message AreaInvalid = ''Area is invalid.''"
| "message LimitNotConverged =
     ''Integration limit did not converge. The function might not reach the target area.''"

subsection \<open>Characters\<close>

definition is_space :: "char \<Rightarrow> bool" where
  "is_space c = (of_char c \<in> {9, 10, 11, 12, 13, 32, 160 :: nat})"

definition is_digit :: "char \<Rightarrow> bool" where
  "is_digit c = (48 \<le> (of_char c :: nat) \<and> (of_char c :: nat) \<le> 57)"

definition is_lower :: "char \<Rightarrow> bool" where
  "is_lower c = (97 \<le> (of_char c :: nat) \<and> (of_char c :: nat) \<le> 122)"

definition toLowerCase_char :: "char \<Rightarrow> char" where
  "toLowerCase_char c =
     (let n = (of_char c :: nat)
      in if (65 \<le> n \<and> n \<le> 90) \<or> (192 \<le> n \<and> n \<le> 222 \<and> n \<noteq> 215)
         then char_of (n + 32) else c)"

definition toLowerCase :: "string \<Rightarrow> string" where
  "toLowerCase s = map toLowerCase_char s"

text \<open>\<open>s.replace(/\s+/g, '')\<close> and the test \<open>!s.trim()\<close>.\<close>

definition strip_spaces :: "string \<Rightarrow> string" where
  "strip_spaces s = filter (\<lambda>c. \<not> is_space c) s"

definition trim_is_empty :: "string \<Rightarrow> bool" where
  "trim_is_empty s = list_all is_space s"

definition FUNCTIONS :: "string list" where
  "FUNCTIONS = [''sin'', ''cos'', ''tan'', ''asin'', ''acos'', ''atan'', ''exp'', ''ln'',
     ''log'', ''log10'', ''sqrt'', ''abs'']"

text \<open>
  \<open>CONSTANTS[name]\<close> on the object literal \<open>{pi, e}\<close>: its own two properties,
  and what it inherits from \<open>Object.prototype\<close>. The names the tokenizer can ask
  for are lower-case letters and digits, and the one such name on the prototype is
  \<open>constructor\<close>. \<open>None\<close> is \<open>undefined\<close>.
\<close>

definition CONSTANTS :: "'d runtime \<Rightarrow> string \<Rightarrow> 'd jsval option" where
  "CONSTANTS rt name =
     (if name = ''pi'' then Some (Number (Val (Math_PI rt)))
      else if name = ''e'' then Some (Number (Val (Math_E rt)))
      else if name = ''constructor'' then Some ObjectCtor
      else None)"

subsection \<open>The four rewrites for implicit multiplication\<close>

text \<open>
  A global \<open>replace\<close> scans from the left and resumes after the end of each match,
  so the second character of a match is never the first of the next.
  \<^item> \<open>/(\d)([a-z\(])/g\<close> to \<open>$1*$2\<close>;
  \<^item> \<open>/([x\)])(\d)/g\<close> to \<open>$1*$2\<close>;
  \<^item> \<open>/\)([a-z\(])/g\<close> to \<open>)*$1\<close>;
  \<^item> \<open>/([a-z])\(/g\<close> to \<open>FUNCTIONS.has(p1) ? match : p1 + '*('\<close>, where
    \<open>p1\<close> is the one letter the group captured.
\<close>

fun replace1 :: "string \<Rightarrow> string" where
  "replace1 (a # b # cs) =
     (if is_digit a \<and> (is_lower b \<or> b = CHR ''('')
      then a # CHR ''*'' # b # replace1 cs
      else a # replace1 (b # cs))"
| "replace1 cs = cs"

fun replace2 :: "string \<Rightarrow> string" where
  "replace2 (a # b # cs) =
     (if (a = CHR ''x'' \<or> a = CHR '')'') \<and> is_digit b
      then a # CHR ''*'' # b # replace2 cs
      else a # replace2 (b # cs))"
| "replace2 cs = cs"

fun replace3 :: "string \<Rightarrow> string" where
  "replace3 (a # b # cs) =
     (if a = CHR '')'' \<and> (is_lower b \<or> b = CHR ''('')
      then CHR '')'' # CHR ''*'' # b # replace3 cs
      else a # replace3 (b # cs))"
| "replace3 cs = cs"

fun replace4 :: "string \<Rightarrow> string" where
  "replace4 (a # b # cs) =
     (if is_lower a \<and> b = CHR ''(''
      then (if [a] \<in> set FUNCTIONS then [a, b] else [a] @ ''*('') @ replace4 cs
      else a # replace4 (b # cs))"
| "replace4 cs = cs"

definition normalize :: "string \<Rightarrow> string" where
  "normalize expr = replace4 (replace3 (replace2 (replace1 (toLowerCase (strip_spaces expr)))))"

subsection \<open>tokenize\<close>

definition is_name_char :: "char \<Rightarrow> bool" where
  "is_name_char c = (is_lower c \<or> is_digit c)"

definition is_num_char :: "char \<Rightarrow> bool" where
  "is_num_char c = (is_digit c \<or> c = CHR ''.'')"

lemma takeWhile_drop_pos:
  assumes "i < length xs" and "P (xs ! i)"
  shows "0 < length (takeWhile P (drop i xs))"
proof -
  from assms(1) have "drop i xs = xs ! i # drop (Suc i) xs"
    by (simp add: Cons_nth_drop_Suc)
  with assms(2) show ?thesis by simp
qed

lemma takeWhile_drop_measure:
  assumes "i < length xs" and "P (xs ! i)"
  shows "length xs - (i + length (takeWhile P (drop i xs))) < length xs - i"
proof -
  have "length (takeWhile P (drop i xs)) \<le> length xs - i"
    using length_takeWhile_le [of P "drop i xs"] by simp
  moreover have "0 < length (takeWhile P (drop i xs))"
    using assms by (rule takeWhile_drop_pos)
  ultimately show ?thesis using assms(1) by linarith
qed

text \<open>The \<open>while (i < expr.length)\<close> loop, on the rewritten string.\<close>

function tokenize_loop :: "'d runtime \<Rightarrow> string \<Rightarrow> nat \<Rightarrow> 'd token list \<Rightarrow> error + 'd token list" where
  "tokenize_loop rt expr i tokens =
     (if i < length expr then
        (let c = expr ! i in
         if c \<in> set ''+-*/^()'' then
           (if (c = CHR ''-'' \<or> c = CHR ''+'') \<and> (i = 0 \<or> expr ! (i - 1) \<in> set ''+(/*^-'')
            then tokenize_loop rt expr (i + 1) (tokens @ [TUnary (if c = CHR ''-'' then neg else pos)])
            else tokenize_loop rt expr (i + 1) (tokens @ [TOp c]))
         else if is_lower c then
           (let name = takeWhile is_name_char (drop i expr) in
            if name \<in> set FUNCTIONS then
              tokenize_loop rt expr (i + length name) (tokens @ [TFunc name])
            else (case CONSTANTS rt name of
                Some v \<Rightarrow> tokenize_loop rt expr (i + length name) (tokens @ [TNum v])
              | None \<Rightarrow>
                  if name = ''x'' then tokenize_loop rt expr (i + length name) (tokens @ [TVar])
                  else Inl (UnknownName name)))
         else if is_num_char c then
           (let num = takeWhile is_num_char (drop i expr) in
            tokenize_loop rt expr (i + length num) (tokens @ [TNum (Number (parseFloat rt num))]))
         else Inl (UnexpectedCharacter c))
      else Inr tokens)"
  by pat_completeness auto
termination
proof (relation "measure (\<lambda>(rt, expr, i, tokens). length expr - i)")
  show "wf (measure (\<lambda>(rt, expr, i, tokens). length expr - i))" by simp
qed (auto simp: is_name_char_def is_num_char_def intro!: takeWhile_drop_measure)

declare tokenize_loop.simps [simp del]

definition tokenize :: "'d runtime \<Rightarrow> string \<Rightarrow> error + 'd token list" where
  "tokenize rt expr = tokenize_loop rt (normalize expr) 0 []"

subsection \<open>toRPN\<close>

text \<open>
  \<open>out\<close> is an array that only grows at its end. \<open>opStack\<close> is used as a
  stack: it is a list with its top at the head.
\<close>

definition PRECEDENCE :: "char \<Rightarrow> nat option" where
  "PRECEDENCE c =
     (if c = CHR ''+'' \<or> c = CHR ''-'' then Some 1
      else if c = CHR ''*'' \<or> c = CHR ''/'' then Some 2
      else if c = CHR ''^'' then Some 3
      else None)"

definition RIGHT_ASSOC :: "char \<Rightarrow> bool" where
  "RIGHT_ASSOC c = (c = CHR ''^'')"

text \<open>\<open>t.value === c\<close> for a one-character string \<open>c\<close>.\<close>

fun value_is :: "'d token \<Rightarrow> char \<Rightarrow> bool" where
  "value_is (TOp d) c = (d = c)"
| "value_is _ c = False"

text \<open>\<open>precTop > precCurr\<close>, where a missing entry of the table is \<open>undefined\<close>.\<close>

fun prec_gt :: "nat option \<Rightarrow> nat option \<Rightarrow> bool" where
  "prec_gt (Some a) (Some b) = (a > b)"
| "prec_gt _ _ = False"

text \<open>
  \<open>while (opStack.length && opStack[opStack.length - 1].value !== '(') out.push(opStack.pop())\<close>
\<close>

fun pop_until_open :: "'d token list \<Rightarrow> 'd token list \<Rightarrow> 'd token list \<times> 'd token list" where
  "pop_until_open out [] = (out, [])"
| "pop_until_open out (t # opStack) =
     (if value_is t (CHR ''('') then (out, t # opStack)
      else pop_until_open (out @ [t]) opStack)"

text \<open>The \<open>while (opStack.length)\<close> loop of a binary operator with value \<open>v\<close>.\<close>

fun pop_operators :: "char \<Rightarrow> 'd token list \<Rightarrow> 'd token list \<Rightarrow> 'd token list \<times> 'd token list" where
  "pop_operators v out [] = (out, [])"
| "pop_operators v out (TUnary u # opStack) = pop_operators v (out @ [TUnary u]) opStack"
| "pop_operators v out (TOp tv # opStack) =
     (if tv = CHR ''('' then (out, TOp tv # opStack)
      else if prec_gt (PRECEDENCE tv) (PRECEDENCE v)
              \<or> (PRECEDENCE tv = PRECEDENCE v \<and> \<not> RIGHT_ASSOC v)
      then pop_operators v (out @ [TOp tv]) opStack
      else (out, TOp tv # opStack))"
| "pop_operators v out (t # opStack) = (out, t # opStack)"

text \<open>The final \<open>while (opStack.length)\<close> loop.\<close>

fun flush :: "'d token list \<Rightarrow> 'd token list \<Rightarrow> error + 'd token list" where
  "flush out [] = Inr out"
| "flush out (t # opStack) =
     (if value_is t (CHR ''('') \<or> value_is t (CHR '')'') then Inl MismatchedParentheses
      else flush (out @ [t]) opStack)"

fun toRPN_loop :: "'d token list \<Rightarrow> 'd token list \<Rightarrow> 'd token list \<Rightarrow> error + 'd token list" where
  "toRPN_loop [] out opStack = flush out opStack"
| "toRPN_loop (TNum v # ts) out opStack = toRPN_loop ts (out @ [TNum v]) opStack"
| "toRPN_loop (TVar # ts) out opStack = toRPN_loop ts (out @ [TVar]) opStack"
| "toRPN_loop (TFunc n # ts) out opStack = toRPN_loop ts out (TFunc n # opStack)"
| "toRPN_loop (TUnary u # ts) out opStack = toRPN_loop ts out (TUnary u # opStack)"
| "toRPN_loop (TOp c # ts) out opStack =
     (if c = CHR ''('' then toRPN_loop ts out (TOp c # opStack)
      else if c = CHR '')'' then
        (case pop_until_open out opStack of
           (out', []) \<Rightarrow> Inl MismatchedParentheses
         | (out', paren # TFunc n # opStack') \<Rightarrow> toRPN_loop ts (out' @ [TFunc n]) opStack'
         | (out', paren # opStack') \<Rightarrow> toRPN_loop ts out' opStack')
      else
        (case pop_operators c out opStack of
           (out', opStack') \<Rightarrow> toRPN_loop ts out' (TOp c # opStack')))"

definition toRPN :: "'d token list \<Rightarrow> error + 'd token list" where
  "toRPN tokens = toRPN_loop tokens [] []"

subsection \<open>compile\<close>

text \<open>\<open>s.split(c)\<close>: the pieces between the occurrences of \<open>c\<close>.\<close>

fun split :: "char \<Rightarrow> string \<Rightarrow> string list" where
  "split c [] = [[]]"
| "split c (x # xs) =
     (if x = c then [] # split c xs
      else (case split c xs of p # ps \<Rightarrow> (x # p) # ps | [] \<Rightarrow> [[x]]))"

text \<open>Tokenizing and converting \<open>`(${lhs}) - (${rhs})`\<close>.\<close>

definition compile_sides :: "'d runtime \<Rightarrow> string \<Rightarrow> string \<Rightarrow> error + 'd token list" where
  "compile_sides rt lhs rhs =
     (case tokenize rt (''('' @ lhs @ '') - ('' @ rhs @ '')'') of
        Inl e \<Rightarrow> Inl e
      | Inr tokens \<Rightarrow> toRPN tokens)"

text \<open>
  \<open>compile\<close> returns a closure over \<open>rpn\<close>; the model returns \<open>rpn\<close>, and the
  closure is \<open>evaluate\<close> below applied to it.
\<close>

definition compile :: "'d runtime \<Rightarrow> string \<Rightarrow> error + 'd token list" where
  "compile rt exprStr =
     (if trim_is_empty exprStr then Inl EmptyExpression
      else if CHR ''='' \<in> set exprStr then
        (let parts = split (CHR ''='') exprStr in
         if length parts > 2 then Inl MultipleEquals
         else compile_sides rt (parts ! 0) (parts ! 1))
      else compile_sides rt exprStr ''0'')"

subsection \<open>evaluate\<close>

text \<open>
  Conversion to a number, and the operators of the language on the values of the
  stack. \<open>+\<close> concatenates strings as soon as one operand is a string or an
  object; the other operators convert both operands to numbers.
\<close>

fun ToNumber :: "'d runtime \<Rightarrow> 'd jsval \<Rightarrow> 'd num" where
  "ToNumber rt Undefined = NaN"
| "ToNumber rt (Number n) = n"
| "ToNumber rt (Str s) = StringToNumber rt s"
| "ToNumber rt ObjectCtor = StringToNumber rt (ToString rt ObjectCtor)"

fun lift1 :: "('d \<Rightarrow> 'd num) \<Rightarrow> 'd num \<Rightarrow> 'd num" where
  "lift1 f (Val a) = f a"
| "lift1 f NaN = NaN"

fun lift2 :: "('d \<Rightarrow> 'd \<Rightarrow> 'd num) \<Rightarrow> 'd num \<Rightarrow> 'd num \<Rightarrow> 'd num" where
  "lift2 f (Val a) (Val b) = f a b"
| "lift2 f _ _ = NaN"

fun concatenates :: "'d jsval \<Rightarrow> bool" where
  "concatenates (Str s) = True"
| "concatenates ObjectCtor = True"
| "concatenates _ = False"

definition js_add :: "'d runtime \<Rightarrow> 'd jsval \<Rightarrow> 'd jsval \<Rightarrow> 'd jsval" where
  "js_add rt a b =
     (if concatenates a \<or> concatenates b then Str (ToString rt a @ ToString rt b)
      else Number (lift2 (fadd rt) (ToNumber rt a) (ToNumber rt b)))"

definition js_sub :: "'d runtime \<Rightarrow> 'd jsval \<Rightarrow> 'd jsval \<Rightarrow> 'd jsval" where
  "js_sub rt a b = Number (lift2 (fsub rt) (ToNumber rt a) (ToNumber rt b))"

definition js_mul :: "'d runtime \<Rightarrow> 'd jsval \<Rightarrow> 'd jsval \<Rightarrow> 'd jsval" where
  "js_mul rt a b = Number (lift2 (fmul rt) (ToNumber rt a) (ToNumber rt b))"

definition js_div :: "'d runtime \<Rightarrow> 'd jsval \<Rightarrow> 'd jsval \<Rightarrow> 'd jsval" where
  "js_div rt a b = Number (lift2 (fdiv rt) (ToNumber rt a) (ToNumber rt b))"

definition js_pow :: "'d runtime \<Rightarrow> 'd jsval \<Rightarrow> 'd jsval \<Rightarrow> 'd jsval" where
  "js_pow rt a b = Number (Math_pow rt (ToNumber rt a) (ToNumber rt b))"

definition js_neg :: "'d runtime \<Rightarrow> 'd jsval \<Rightarrow> 'd jsval" where
  "js_neg rt a = Number (lift1 (\<lambda>d. Val (fneg rt d)) (ToNumber rt a))"

text \<open>The \<open>switch (t.value)\<close>; it has no default, so \<open>v\<close> stays \<open>undefined\<close>.\<close>

definition apply_func :: "'d runtime \<Rightarrow> string \<Rightarrow> 'd jsval \<Rightarrow> 'd jsval" where
  "apply_func rt name a =
     (if name = ''sin'' then Number (lift1 (Math_sin rt) (ToNumber rt a))
      else if name = ''cos'' then Number (lift1 (Math_cos rt) (ToNumber rt a))
      else if name = ''tan'' then Number (lift1 (Math_tan rt) (ToNumber rt a))
      else if name = ''asin'' then Number (lift1 (Math_asin rt) (ToNumber rt a))
      else if name = ''acos'' then Number (lift1 (Math_acos rt) (ToNumber rt a))
      else if name = ''atan'' then Number (lift1 (Math_atan rt) (ToNumber rt a))
      else if name = ''exp'' then Number (lift1 (Math_exp rt) (ToNumber rt a))
      else if name = ''ln'' \<or> name = ''log'' then Number (lift1 (Math_log rt) (ToNumber rt a))
      else if name = ''log10'' then Number (lift1 (Math_log10 rt) (ToNumber rt a))
      else if name = ''sqrt'' then Number (lift1 (Math_sqrt rt) (ToNumber rt a))
      else if name = ''abs'' then Number (lift1 (Math_abs rt) (ToNumber rt a))
      else Undefined)"

text \<open>
  The state a call of the compiled function works on: the array \<open>rpn\<close> its
  closure captured, shared by all calls, and the \<open>stack\<close> of this call (top at the
  head). \<open>pop\<close> on an empty array returns \<open>undefined\<close>.
\<close>

record 'd machine =
  rpn :: "'d token list"
  stack :: "'d jsval list"

definition push :: "'d jsval \<Rightarrow> 'd machine \<Rightarrow> 'd machine" where
  "push v m = m\<lparr>stack := v # stack m\<rparr>"

definition pop :: "'d machine \<Rightarrow> 'd jsval \<times> 'd machine" where
  "pop m = (case stack m of [] \<Rightarrow> (Undefined, m) | v # s \<Rightarrow> (v, m\<lparr>stack := s\<rparr>))"

text \<open>The body of the \<open>for\<close> loop, for the token \<open>t = rpn[i]\<close>.\<close>

fun exec :: "'d runtime \<Rightarrow> 'd jsval \<Rightarrow> 'd token \<Rightarrow> 'd machine \<Rightarrow> 'd machine" where
  "exec rt xValue (TNum v) m = push v m"
| "exec rt xValue TVar m = push xValue m"
| "exec rt xValue (TUnary u) m =
     (case pop m of (a, m1) \<Rightarrow> push (if u = neg then js_neg rt a else a) m1)"
| "exec rt xValue (TOp c) m =
     (case pop m of (b, m1) \<Rightarrow>
      case pop m1 of (a, m2) \<Rightarrow>
        if c = CHR ''+'' then push (js_add rt a b) m2
        else if c = CHR ''-'' then push (js_sub rt a b) m2
        else if c = CHR ''*'' then push (js_mul rt a b) m2
        else if c = CHR ''/'' then push (js_div rt a b) m2
        else if c = CHR ''^'' then push (js_pow rt a b) m2
        else m2)"
| "exec rt xValue (TFunc name) m =
     (case pop m of (a, m1) \<Rightarrow> push (apply_func rt name a) m1)"

lemma rpn_push: "rpn (push v m) = rpn m"
  by (simp add: push_def)

lemma rpn_pop: "rpn (snd (pop m)) = rpn m"
  by (simp add: pop_def split: list.splits)

lemma rpn_exec: "rpn (exec rt xValue t m) = rpn m"
proof (cases t)
  case (TOp c)
  obtain b m1 where p1: "pop m = (b, m1)" by (cases "pop m")
  obtain a m2 where p2: "pop m1 = (a, m2)" by (cases "pop m1")
  have "rpn m1 = rpn m" using rpn_pop [of m] p1 by simp
  moreover have "rpn m2 = rpn m1" using rpn_pop [of m1] p2 by simp
  ultimately show ?thesis using TOp p1 p2 by (simp add: rpn_push)
next
  case (TUnary u)
  obtain a m1 where p1: "pop m = (a, m1)" by (cases "pop m")
  have "rpn m1 = rpn m" using rpn_pop [of m] p1 by simp
  then show ?thesis using TUnary p1 by (simp add: rpn_push)
next
  case (TFunc name)
  obtain a m1 where p1: "pop m = (a, m1)" by (cases "pop m")
  have "rpn m1 = rpn m" using rpn_pop [of m] p1 by simp
  then show ?thesis using TFunc p1 by (simp add: rpn_push)
qed (simp_all add: rpn_push)

text \<open>\<open>for (let i = 0; i < rpn.length; i++) { let t = rpn[i]; ... }\<close>\<close>

function evaluate_loop :: "'d runtime \<Rightarrow> 'd jsval \<Rightarrow> nat \<Rightarrow> 'd machine \<Rightarrow> 'd machine" where
  "evaluate_loop rt xValue i m =
     (if i < length (rpn m) then evaluate_loop rt xValue (i + 1) (exec rt xValue (rpn m ! i) m)
      else m)"
  by pat_completeness auto
termination
  by (relation "measure (\<lambda>(rt, xValue, i, m). length (rpn m) - i)") (auto simp: rpn_exec)

declare evaluate_loop.simps [simp del]

text \<open>
  One call \<open>f(xValue)\<close> of the compiled function, on the array its closure holds:
  the result of the call, and the array as the call leaves it.
\<close>

definition call :: "'d runtime \<Rightarrow> 'd token list \<Rightarrow> 'd jsval \<Rightarrow> (error + 'd jsval) \<times> 'd token list" where
  "call rt prog xValue =
     (let m = evaluate_loop rt xValue 0 \<lparr>rpn = prog, stack = []\<rparr>
      in (case stack m of [v] \<Rightarrow> Inr v | _ \<Rightarrow> Inl InvalidStructure, rpn m))"

definition evaluate :: "'d runtime \<Rightarrow> 'd token list \<Rightarrow> 'd jsval \<Rightarrow> error + 'd jsval" where
  "evaluate rt prog xValue = fst (call rt prog xValue)"

section \<open>The numeric solvers of math\_solver.js\<close>

text \<open>
  The solvers compare and order numbers, so they are modelled on the reals: a
  finite double is read as the real it denotes and the arithmetic as exact. A
  function \<open>f\<close> handed to a solver is a total function on the reals.
  \<open>Math.random()\<close> is the stream \<open>rnd\<close> of its successive results; how many
  have been drawn is part of the state.

  The state threaded through the solvers: \<open>draws\<close>, the number of calls of
  \<open>Math.random()\<close> so far, and three counters that record what has run, the
  iterations of \<open>findRoot\<close>'s loop that perturbed (\<open>perturbs\<close>), those that
  computed a secant update (\<open>secants\<close>) and the calls of \<open>findRoot\<close>
  (\<open>calls\<close>).
\<close>

record trace =
  draws :: nat
  perturbs :: nat
  secants :: nat
  calls :: nat

text \<open>The iterations of \<open>findRoot\<close>'s loop that have run: each perturbs or computes a secant update.\<close>

definition iterations :: "trace \<Rightarrow> nat" where
  "iterations tr = perturbs tr + secants tr"

definition EPSILON :: real where
  "EPSILON = 1 / 10 ^ 8"

definition MAX_ITER :: nat where
  "MAX_ITER = 1000"

subsection \<open>findRoot\<close>

text \<open>\<open>for (let i = 0; i < MAX_ITER; i++) { ... }\<close>; \<open>continue\<close> goes to \<open>i++\<close>.\<close>

function findRoot_loop ::
  "(real \<Rightarrow> real) \<Rightarrow> (nat \<Rightarrow> real) \<Rightarrow> nat \<Rightarrow> trace \<Rightarrow> real \<Rightarrow> real \<Rightarrow> real \<Rightarrow> real
     \<Rightarrow> (error + real) \<times> trace" where
  "findRoot_loop f rnd i tr x0 f0 x1 f1 =
     (if i < MAX_ITER then
        (if \<bar>f1 - f0\<bar> < 1 / 10 ^ 14 then
           (let x1' = x1 + (rnd (draws tr) - 0.5) * 0.1;
                f1' = f x1'
            in findRoot_loop f rnd (i + 1)
                 (tr\<lparr>draws := draws tr + 1, perturbs := perturbs tr + 1\<rparr>) x0 f0 x1' f1')
         else
           (let x2 = x1 - f1 * (x1 - x0) / (f1 - f0);
                f2 = f x2;
                tr' = tr\<lparr>secants := secants tr + 1\<rparr>
            in if \<bar>f2\<bar> < EPSILON then (Inr x2, tr')
               else findRoot_loop f rnd (i + 1) tr' x1 f1 x2 f2))
      else (Inl RootNotConverged, tr))"
  by pat_completeness auto
termination
  by (relation "measure (\<lambda>(f, rnd, i, tr, x0, f0, x1, f1). MAX_ITER - i)") auto

declare findRoot_loop.simps [simp del]

definition findRoot :: "(real \<Rightarrow> real) \<Rightarrow> (nat \<Rightarrow> real) \<Rightarrow> real \<Rightarrow> trace \<Rightarrow> (error + real) \<times> trace" where
  "findRoot f rnd guess tr =
     (let x0 = guess;
          x1 = guess + 0.1;
          f0 = f x0;
          f1 = f x1;
          tr0 = tr\<lparr>calls := calls tr + 1\<rparr>
      in if \<bar>f0\<bar> < EPSILON then (Inr x0, tr0)
         else if \<bar>f1\<bar> < EPSILON then (Inr x1, tr0)
         else findRoot_loop f rnd 0 tr0 x0 f0 x1 f1)"

subsection \<open>findAllRoots\<close>

text \<open>\<open>try { roots.push(findRoot(f, guess)); } catch (e) { }\<close>\<close>

definition try_push :: "(real \<Rightarrow> real) \<Rightarrow> (nat \<Rightarrow> real) \<Rightarrow> real \<Rightarrow> real list \<times> trace \<Rightarrow> real list \<times> trace" where
  "try_push f rnd guess st =
     (case findRoot f rnd guess (snd st) of
        (Inr r, tr') \<Rightarrow> (fst st @ [r], tr')
      | (Inl e, tr') \<Rightarrow> (fst st, tr'))"

text \<open>
  The sweep \<open>for (let i = 1; i <= steps; i++)\<close>, with \<open>roots\<close> and the trace as
  its state.
\<close>

function sweep ::
  "(real \<Rightarrow> real) \<Rightarrow> (nat \<Rightarrow> real) \<Rightarrow> real \<Rightarrow> real \<Rightarrow> nat \<Rightarrow> nat \<Rightarrow> real \<Rightarrow> real
     \<Rightarrow> real list \<times> trace \<Rightarrow> real list \<times> trace" where
  "sweep f rnd xStart dx steps i prevX prevY st =
     (if i \<le> steps then
        (let currX = xStart + real i * dx;
             currY = f currX;
             st' = (if prevY * currY \<le> 0 then try_push f rnd ((prevX + currX) / 2) st else st)
         in sweep f rnd xStart dx steps (i + 1) currX currY st')
      else st)"
  by pat_completeness auto
termination
  by (relation "measure (\<lambda>(f, rnd, xStart, dx, steps, i, prevX, prevY, st). steps + 1 - i)") auto

declare sweep.simps [simp del]

text \<open>The candidates in the order they are found: the root seeded at \<open>guess\<close>, then the sweep's.\<close>

definition candidates ::
  "(real \<Rightarrow> real) \<Rightarrow> (nat \<Rightarrow> real) \<Rightarrow> real \<Rightarrow> real \<Rightarrow> nat \<Rightarrow> trace \<Rightarrow> real list \<times> trace" where
  "candidates f rnd guess rng steps tr =
     (let st = try_push f rnd guess ([], tr);
          xStart = guess - rng;
          xEnd = guess + rng;
          dx = (xEnd - xStart) / real steps;
          prevX = xStart;
          prevY = f prevX
      in sweep f rnd xStart dx steps 1 prevX prevY st)"

text \<open>The filter of near-duplicates; the inner loop with its \<open>break\<close> is \<open>list_ex\<close>.\<close>

fun unique_loop :: "real list \<Rightarrow> real list \<Rightarrow> real list" where
  "unique_loop [] uniqueRoots = uniqueRoots"
| "unique_loop (r # roots) uniqueRoots =
     (let isDup = list_ex (\<lambda>ur. \<bar>r - ur\<bar> < 1 / 10 ^ 5) uniqueRoots
      in unique_loop roots (if \<not> isDup then uniqueRoots @ [r] else uniqueRoots))"

text \<open>
  \<open>Array.prototype.sort(compare)\<close> is the runtime's: a stable sort. It is modelled
  as the stable insertion sort by the comparison function.
\<close>

fun insert_by :: "('a \<Rightarrow> 'a \<Rightarrow> real) \<Rightarrow> 'a \<Rightarrow> 'a list \<Rightarrow> 'a list" where
  "insert_by cmp a [] = [a]"
| "insert_by cmp a (b # bs) = (if cmp a b \<le> 0 then a # b # bs else b # insert_by cmp a bs)"

definition sort_by :: "('a \<Rightarrow> 'a \<Rightarrow> real) \<Rightarrow> 'a list \<Rightarrow> 'a list" where
  "sort_by cmp xs = foldr (insert_by cmp) xs []"

definition findAllRoots ::
  "(real \<Rightarrow> real) \<Rightarrow> (nat \<Rightarrow> real) \<Rightarrow> real \<Rightarrow> real \<Rightarrow> nat \<Rightarrow> trace \<Rightarrow> (error + real list) \<times> trace" where
  "findAllRoots f rnd guess rng steps tr =
     (case candidates f rnd guess rng steps tr of
        (roots, tr') \<Rightarrow>
          (let uniqueRoots = unique_loop roots [];
               sorted_roots = sort_by (\<lambda>a b. \<bar>a - guess\<bar> - \<bar>b - guess\<bar>) uniqueRoots
           in if length sorted_roots = 0 then (Inl NoRootFound, tr')
              else (Inr sorted_roots, tr')))"



subsection \<open>integrate\<close>

text \<open>\<open>for (let i = 1; i < n; i++)\<close>; \<open>acc\<close> is the variable \<open>sum\<close>, and \<open>rng\<close> above the parameter \<open>range\<close>.\<close>

function integrate_loop :: "(real \<Rightarrow> real) \<Rightarrow> real \<Rightarrow> real \<Rightarrow> nat \<Rightarrow> nat \<Rightarrow> real \<Rightarrow> real" where
  "integrate_loop f a h n i acc =
     (if i < n then
        (let x = a + real i * h
         in if i mod 3 = 0 then integrate_loop f a h n (i + 1) (acc + 2 * f x)
            else integrate_loop f a h n (i + 1) (acc + 3 * f x))
      else acc)"
  by pat_completeness auto
termination
  by (relation "measure (\<lambda>(f, a, h, n, i, acc). n - i)") auto

declare integrate_loop.simps [simp del]

definition integrate :: "(real \<Rightarrow> real) \<Rightarrow> real \<Rightarrow> real \<Rightarrow> nat \<Rightarrow> real" where
  "integrate f a b n0 =
     (let n = (if n0 mod 3 \<noteq> 0 then n0 + (3 - n0 mod 3) else n0);
          h = (b - a) / real n;
          acc = f a + f b
      in (3 * h / 8) * integrate_loop f a h n 1 acc)"

text \<open>The weight of the interior node \<open>i\<close> in Simpson's 3/8 rule, for stating what \<open>integrate\<close> computes.\<close>

definition weight :: "nat \<Rightarrow> real" where
  "weight i = (if i mod 3 = 0 then 2 else 3)"

text \<open>
  The reals have no \<open>NaN\<close>. To follow a \<open>NaN\<close> through \<open>integrate\<close>, here is
  the same function on the numbers of the runtime, where \<open>f\<close> maps numbers to
  numbers and may return \<open>NaN\<close>.
\<close>

function integrate_loop_num ::
  "'d runtime \<Rightarrow> ('d num \<Rightarrow> 'd num) \<Rightarrow> 'd num \<Rightarrow> 'd num \<Rightarrow> nat \<Rightarrow> nat \<Rightarrow> 'd num \<Rightarrow> 'd num" where
  "integrate_loop_num rt f a h n i acc =
     (if i < n then
        (let x = lift2 (fadd rt) a (lift2 (fmul rt) (Val (of_count rt i)) h)
         in if i mod 3 = 0
            then integrate_loop_num rt f a h n (i + 1)
                   (lift2 (fadd rt) acc (lift2 (fmul rt) (Val (of_count rt 2)) (f x)))
            else integrate_loop_num rt f a h n (i + 1)
                   (lift2 (fadd rt) acc (lift2 (fmul rt) (Val (of_count rt 3)) (f x))))
      else acc)"
  by pat_completeness auto
termination
  by (relation "measure (\<lambda>(rt, f, a, h, n, i, acc). n - i)") auto

declare integrate_loop_num.simps [simp del]

definition integrate_num :: "'d runtime \<Rightarrow> ('d num \<Rightarrow> 'd num) \<Rightarrow> 'd num \<Rightarrow> 'd num \<Rightarrow> nat \<Rightarrow> 'd num" where
  "integrate_num rt f a b n0 =
     (let n = (if n0 mod 3 \<noteq> 0 then n0 + (3 - n0 mod 3) else n0);
          h = lift2 (fdiv rt) (lift2 (fsub rt) b a) (Val (of_count rt n));
          acc = lift2 (fadd rt) (f a) (f b)
      in lift2 (fmul rt)
           (lift2 (fdiv rt) (lift2 (fmul rt) (Val (of_count rt 3)) h) (Val (of_count rt 8)))
           (integrate_loop_num rt f a h n 1 acc))"

subsection \<open>A runtime with the two infinities\<close>

text \<open>
  A runtime for following infinities, and for running definitions on given
  inputs. Its doubles are the two infinities and the finite numbers, a finite
  double read as the real it denotes and an operation on finite operands as
  exact; zero has no sign and stands for \<open>+0\<close>. Where an operand is infinite, or
  a divisor is zero, the operations return what IEEE 754 and \<open>Math\<close> return.
\<close>

datatype xreal = MInf | Fin real | PInf

fun xneg :: "xreal \<Rightarrow> xreal" where
  "xneg MInf = PInf"
| "xneg (Fin x) = Fin (- x)"
| "xneg PInf = MInf"

fun xsign :: "xreal \<Rightarrow> real" where
  "xsign MInf = - 1"
| "xsign (Fin x) = sgn x"
| "xsign PInf = 1"

fun xadd :: "xreal \<Rightarrow> xreal \<Rightarrow> xreal num" where
  "xadd (Fin x) (Fin y) = Val (Fin (x + y))"
| "xadd PInf MInf = NaN"
| "xadd MInf PInf = NaN"
| "xadd PInf b = Val PInf"
| "xadd a PInf = Val PInf"
| "xadd MInf b = Val MInf"
| "xadd a MInf = Val MInf"

definition xsub :: "xreal \<Rightarrow> xreal \<Rightarrow> xreal num" where
  "xsub a b = xadd a (xneg b)"

fun xmul :: "xreal \<Rightarrow> xreal \<Rightarrow> xreal num" where
  "xmul (Fin x) (Fin y) = Val (Fin (x * y))"
| "xmul a b =
     (if xsign a * xsign b = 0 then NaN
      else if 0 < xsign a * xsign b then Val PInf else Val MInf)"

fun xdiv :: "xreal \<Rightarrow> xreal \<Rightarrow> xreal num" where
  "xdiv (Fin x) (Fin y) =
     (if y \<noteq> 0 then Val (Fin (x / y))
      else if x = 0 then NaN else if 0 < x then Val PInf else Val MInf)"
| "xdiv (Fin x) b = Val (Fin 0)"
| "xdiv a (Fin y) = (if (0 < xsign a) = (0 \<le> y) then Val PInf else Val MInf)"
| "xdiv a b = NaN"

text \<open>
  \<open>Math.pow\<close>: \<open>NaN\<close> for an exponent \<open>NaN\<close>, then 1 for an exponent 0 whatever
  the base (\<open>NaN\<close> included), then \<open>NaN\<close> for a base \<open>NaN\<close>, then the cases of
  infinite and zero operands, then the power of finite numbers, which is \<open>NaN\<close>
  for a negative base and an exponent that is not an integer.
\<close>

definition is_odd_integer :: "real \<Rightarrow> bool" where
  "is_odd_integer y = (y = of_int \<lfloor>y\<rfloor> \<and> odd \<lfloor>y\<rfloor>)"

fun xpow :: "xreal num \<Rightarrow> xreal num \<Rightarrow> xreal num" where
  "xpow a NaN = NaN"
| "xpow a (Val (Fin y)) =
     (if y = 0 then Val (Fin 1)
      else case a of
          NaN \<Rightarrow> NaN
        | Val PInf \<Rightarrow> if 0 < y then Val PInf else Val (Fin 0)
        | Val MInf \<Rightarrow>
            if 0 < y then (if is_odd_integer y then Val MInf else Val PInf) else Val (Fin 0)
        | Val (Fin x) \<Rightarrow>
            if x = 0 then (if 0 < y then Val (Fin 0) else Val PInf)
            else if 0 < x then Val (Fin (x powr y))
            else if y = of_int \<lfloor>y\<rfloor> then Val (Fin (x powi \<lfloor>y\<rfloor>))
            else NaN)"
| "xpow a (Val PInf) =
     (case a of
        NaN \<Rightarrow> NaN
      | Val (Fin x) \<Rightarrow> if 1 < \<bar>x\<bar> then Val PInf else if \<bar>x\<bar> = 1 then NaN else Val (Fin 0)
      | Val b \<Rightarrow> Val PInf)"
| "xpow a (Val MInf) =
     (case a of
        NaN \<Rightarrow> NaN
      | Val (Fin x) \<Rightarrow> if 1 < \<bar>x\<bar> then Val (Fin 0) else if \<bar>x\<bar> = 1 then NaN else Val PInf
      | Val b \<Rightarrow> Val (Fin 0))"

text \<open>
  \<open>parseFloat\<close> as it reads what \<open>tokenize\<close> passes to it, a string of digits and
  dots: the longest prefix of the form digits, dot, digits, with one of the two
  runs of digits possibly empty; \<open>NaN\<close> when both are.
\<close>

definition digits_value :: "string \<Rightarrow> nat" where
  "digits_value s = foldl (\<lambda>n c. 10 * n + (of_char c - 48)) 0 s"

definition parse_decimal :: "string \<Rightarrow> xreal num" where
  "parse_decimal s =
     (let ip = takeWhile is_digit s;
          rest = dropWhile is_digit s;
          fp = (case rest of c # cs \<Rightarrow> if c = CHR ''.'' then takeWhile is_digit cs else [] | [] \<Rightarrow> [])
      in if ip = [] \<and> fp = [] then NaN
         else Val (Fin (real (digits_value ip) + real (digits_value fp) / 10 ^ length fp)))"

text \<open>
  The two conversions between strings and numbers are not modelled by this
  runtime (the empty string, and \<open>NaN\<close>); no statement below reads them.
\<close>

definition extended_runtime :: "xreal runtime" where
  "extended_runtime =
     \<lparr>parseFloat = parse_decimal, Math_PI = Fin pi, Math_E = Fin (exp 1),
      fadd = xadd, fsub = xsub, fmul = xmul, fdiv = xdiv, fneg = xneg,
      Math_pow = xpow,
      Math_sin = (\<lambda>a. case a of Fin x \<Rightarrow> Val (Fin (sin x)) | _ \<Rightarrow> NaN),
      Math_cos = (\<lambda>a. case a of Fin x \<Rightarrow> Val (Fin (cos x)) | _ \<Rightarrow> NaN),
      Math_tan = (\<lambda>a. case a of Fin x \<Rightarrow> Val (Fin (tan x)) | _ \<Rightarrow> NaN),
      Math_asin = (\<lambda>a. case a of Fin x \<Rightarrow> if \<bar>x\<bar> \<le> 1 then Val (Fin (arcsin x)) else NaN | _ \<Rightarrow> NaN),
      Math_acos = (\<lambda>a. case a of Fin x \<Rightarrow> if \<bar>x\<bar> \<le> 1 then Val (Fin (arccos x)) else NaN | _ \<Rightarrow> NaN),
      Math_atan = (\<lambda>a. case a of Fin x \<Rightarrow> Val (Fin (arctan x)) | PInf \<Rightarrow> Val (Fin (pi / 2))
                      | MInf \<Rightarrow> Val (Fin (- pi / 2))),
      Math_exp = (\<lambda>a. case a of Fin x \<Rightarrow> Val (Fin (exp x)) | PInf \<Rightarrow> Val PInf | MInf \<Rightarrow> Val (Fin 0)),
      Math_log = (\<lambda>a. case a of
                      Fin x \<Rightarrow> if 0 < x then Val (Fin (ln x)) else if x = 0 then Val MInf else NaN
                    | PInf \<Rightarrow> Val PInf | MInf \<Rightarrow> NaN),
      Math_log10 = (\<lambda>a. case a of
                      Fin x \<Rightarrow> if 0 < x then Val (Fin (log 10 x)) else if x = 0 then Val MInf else NaN
                    | PInf \<Rightarrow> Val PInf | MInf \<Rightarrow> NaN),
      Math_sqrt = (\<lambda>a. case a of Fin x \<Rightarrow> if 0 \<le> x then Val (Fin (sqrt x)) else NaN
                    | PInf \<Rightarrow> Val PInf | MInf \<Rightarrow> NaN),
      Math_abs = (\<lambda>a. case a of Fin x \<Rightarrow> Val (Fin \<bar>x\<bar>) | _ \<Rightarrow> Val PInf),
      ToString = (\<lambda>v. []), StringToNumber = (\<lambda>s. NaN),
      of_count = (\<lambda>n. Fin (real n))\<rparr>"

text \<open>A number that is not finite: \<open>NaN\<close> or an infinity.\<close>

fun nonfinite :: "xreal num \<Rightarrow> bool" where
  "nonfinite (Val (Fin x)) = False"
| "nonfinite a = True"

subsection \<open>solveLimit\<close>

text \<open>
  \<open>parseFloat\<close> is the runtime's; here it is a parameter \<open>pf\<close> whose result
  \<open>None\<close> is \<open>NaN\<close>, the one value \<open>isNaN\<close> accepts.
\<close>

definition sign :: "real \<Rightarrow> real" where
  "sign v = (if v > 0 then 1 else if v < 0 then - 1 else 0)"

definition limit_g :: "(real \<Rightarrow> real) \<Rightarrow> real \<Rightarrow> bool \<Rightarrow> real \<Rightarrow> real \<Rightarrow> real" where
  "limit_g f knownLimit isUpperUnknown targetArea x =
     (let a = (if isUpperUnknown then knownLimit else x);
          b = (if isUpperUnknown then x else knownLimit);
          width = \<bar>b - a\<bar>;
          n = nat (max 30 (min 3000 \<lceil>width * 50\<rceil>))
      in integrate f a b n - targetArea)"

text \<open>The initial guess, from the rectangle of height \<open>f(knownLimit)\<close>.\<close>

definition limit_guess :: "(real \<Rightarrow> real) \<Rightarrow> real \<Rightarrow> bool \<Rightarrow> real \<Rightarrow> real" where
  "limit_guess f knownLimit isUpperUnknown targetArea =
     (let valAtKnown = f knownLimit;
          rectHeight = (if \<bar>valAtKnown\<bar> > 1 / 10 ^ 4 then valAtKnown else 1);
          guessOffset0 = targetArea / rectHeight;
          guessOffset = (if \<bar>guessOffset0\<bar> > 1000 then sign guessOffset0 * 1000 else guessOffset0)
      in if isUpperUnknown then knownLimit + guessOffset else knownLimit - guessOffset)"

definition solveLimit ::
  "(string \<Rightarrow> real option) \<Rightarrow> (real \<Rightarrow> real) \<Rightarrow> (nat \<Rightarrow> real) \<Rightarrow> string \<Rightarrow> bool \<Rightarrow> string \<Rightarrow> trace
     \<Rightarrow> (error + real) \<times> trace" where
  "solveLimit pf f rnd knownLimitStr isUpperUnknown targetAreaStr tr =
     (case pf knownLimitStr of
        None \<Rightarrow> (Inl KnownLimitInvalid, tr)
      | Some knownLimit \<Rightarrow>
     (case pf targetAreaStr of
        None \<Rightarrow> (Inl AreaInvalid, tr)
      | Some targetArea \<Rightarrow>
          (let g = limit_g f knownLimit isUpperUnknown targetArea;
               guess = limit_guess f knownLimit isUpperUnknown targetArea
           in case findRoot g rnd guess tr of
                (Inr r, tr') \<Rightarrow> (Inr r, tr')
              | (Inl err, tr') \<Rightarrow> (Inl LimitNotConverged, tr'))))"

text \<open>A \<open>parseFloat\<close> that reads two strings, for running \<open>solveLimit\<close> on given inputs.\<close>

definition sample_parseFloat :: "string \<Rightarrow> real option" where
  "sample_parseFloat s = (if s = ''0'' then Some 0 else if s = ''8'' then Some 8 else None)"

section \<open>Properties of the compiler and the evaluator\<close>

lemmas compile_defs = compile_def compile_sides_def tokenize_def normalize_def toRPN_def
  trim_is_empty_def strip_spaces_def toLowerCase_def toLowerCase_char_def
  is_space_def is_digit_def is_lower_def is_name_char_def is_num_char_def
  FUNCTIONS_def CONSTANTS_def PRECEDENCE_def RIGHT_ASSOC_def Let_def tokenize_loop.simps

lemmas evaluate_defs = evaluate_def call_def pop_def push_def evaluate_loop.simps
  js_add_def js_sub_def js_mul_def js_div_def js_pow_def js_neg_def apply_func_def

lemma extended_fields [simp]:
  "fadd extended_runtime = xadd" "fsub extended_runtime = xsub" "fmul extended_runtime = xmul"
  "fdiv extended_runtime = xdiv" "of_count extended_runtime = (\<lambda>n. Fin (real n))"
  "Math_pow extended_runtime = xpow" "parseFloat extended_runtime = parse_decimal"
  by (simp_all add: extended_runtime_def)

lemma rpn_evaluate_loop: "rpn (evaluate_loop rt xValue i m) = rpn m"
proof (induction rt xValue i m rule: evaluate_loop.induct)
  case (1 rt xValue i m)
  show ?case
  proof (cases "i < length (rpn m)")
    case True
    then have "rpn (evaluate_loop rt xValue i m) = rpn (exec rt xValue (rpn m ! i) m)"
      using "1.IH" by (subst evaluate_loop.simps) simp
    then show ?thesis by (simp add: rpn_exec)
  next
    case False
    then show ?thesis by (subst evaluate_loop.simps) simp
  qed
qed

text \<open>
  C1 (the code departs from the claim). The rewrite \<open>/([a-z])\(/g\<close> tests
  \<open>FUNCTIONS.has\<close> on the single letter in front of the parenthesis, which is
  never a function name, so it puts \<open>*\<close> between every function name and its
  opening parenthesis as well. For each of the twelve function names \<open>g\<close>,
  \<open>compile("g(x)")\<close> is the postfix program \<open>x * g 0 -\<close>: a product whose left
  operand is missing, then \<open>g\<close> applied to that product; and this program returns
  \<open>NaN\<close> at every argument, not the value of \<open>g\<close> there.
\<close>

theorem function_call_compiled_as_product:
  "normalize ''(sin(x)) - (0)'' = ''(sin*(x))-(0)''
   \<and> list_all (\<lambda>g. compile rt (g @ ''(x)'') =
          Inr [TVar, TOp CHR ''*'', TFunc g, TNum (Number (parseFloat rt ''0'')), TOp CHR ''-''])
        FUNCTIONS
   \<and> (\<forall>g n xValue.
        evaluate rt [TVar, TOp CHR ''*'', TFunc g, TNum (Number n), TOp CHR ''-''] xValue
          = Inr (Number NaN))"
proof (intro conjI allI)
  show "normalize ''(sin(x)) - (0)'' = ''(sin*(x))-(0)''"
    by (simp add: compile_defs)
  show "list_all (\<lambda>g. compile rt (g @ ''(x)'') =
          Inr [TVar, TOp CHR ''*'', TFunc g, TNum (Number (parseFloat rt ''0'')), TOp CHR ''-''])
        FUNCTIONS"
    by (simp add: compile_defs)
  show "evaluate rt [TVar, TOp CHR ''*'', TFunc g, TNum (Number n), TOp CHR ''-''] xValue
          = Inr (Number NaN)" for g n xValue
    by (simp add: evaluate_defs)
qed

text \<open>
  C7 (the code departs from the claim). The tokenizer looks a name up with
  \<open>CONSTANTS[name] !== undefined\<close> on an object literal, which also finds what the
  literal inherits from \<open>Object.prototype\<close>. The identifier \<open>constructor\<close> is
  not a function name, not \<open>pi\<close>, \<open>e\<close> or \<open>x\<close>, and \<open>compile("constructor")\<close>
  raises nothing: it returns a program whose first token holds the function
  \<open>Object\<close>. An identifier such as \<open>foo\<close> is refused as the claim says.
\<close>

theorem constructor_accepted_as_constant:
  "compile rt ''constructor'' =
     Inr [TNum ObjectCtor, TNum (Number (parseFloat rt ''0'')), TOp CHR ''-'']
   \<and> ''constructor'' \<notin> set FUNCTIONS
   \<and> ''constructor'' \<notin> {''pi'', ''e'', ''x''}
   \<and> compile rt ''foo(x)'' = Inl (UnknownName ''foo'')"
  by (simp add: compile_defs)

text \<open>
  C9. A call of a compiled function leaves the array \<open>rpn\<close> of its closure as it
  found it, and works on a stack of its own. So the result of \<open>f(x)\<close> is the same
  before and after any other call \<open>f(y)\<close>, and after any sequence of calls
  \<open>f(y1), f(y2), ...\<close>: it is a function of the program and of \<open>x\<close> alone,
  whoever calls \<open>f\<close> and with whatever arguments (the root finder's perturbed
  iterates included).
\<close>

theorem compiled_function_is_pure:
  "snd (call rt prog xValue) = prog
   \<and> fst (call rt (snd (call rt prog yValue)) xValue) = fst (call rt prog xValue)
   \<and> foldl (\<lambda>p y. snd (call rt p y)) prog ys = prog
   \<and> evaluate rt (foldl (\<lambda>p y. snd (call rt p y)) prog ys) xValue = evaluate rt prog xValue"
proof -
  have unchanged: "snd (call rt p v) = p" for p :: "'a token list" and v
    by (simp add: call_def Let_def rpn_evaluate_loop)
  have "foldl (\<lambda>p y. snd (call rt p y)) prog ys = prog"
    by (induction ys) (simp_all add: unchanged)
  then show ?thesis
    by (simp add: unchanged)
qed

text \<open>
  C10 (corrected). As the claim states it, a binary operator that finds fewer
  than two operands pushes \<open>NaN\<close>. For \<open>^\<close> this fails: \<open>Math.pow(undefined, 0)\<close>
  is 1. \<open>compile("^0")\<close> is accepted and gives the program \<open>0 ^ 0 -\<close>, where
  \<open>^\<close> finds the one operand 0 on the stack and pushes 1; the compiled function
  returns 1, here at the argument 5.
\<close>

theorem power_with_one_operand_pushes_one:
  "compile extended_runtime ''^0'' =
     Inr [TNum (Number (Val (Fin 0))), TOp CHR ''^'', TNum (Number (Val (Fin 0))), TOp CHR ''-'']
   \<and> evaluate extended_runtime
         [TNum (Number (Val (Fin 0))), TOp CHR ''^'', TNum (Number (Val (Fin 0))), TOp CHR ''-'']
         (Number (Val (Fin 5)))
       = Inr (Number (Val (Fin 1)))
   \<and> stack (exec extended_runtime (Number (Val (Fin 5))) (TOp CHR ''^'')
         \<lparr>rpn = [], stack = [Number (Val (Fin 0))]\<rparr>)
       = [Number (Val (Fin 1))]"
proof (intro conjI)
  show "compile extended_runtime ''^0'' =
     Inr [TNum (Number (Val (Fin 0))), TOp CHR ''^'', TNum (Number (Val (Fin 0))), TOp CHR ''-'']"
    by (simp add: compile_defs parse_decimal_def digits_value_def)
  show "evaluate extended_runtime
         [TNum (Number (Val (Fin 0))), TOp CHR ''^'', TNum (Number (Val (Fin 0))), TOp CHR ''-'']
         (Number (Val (Fin 5)))
       = Inr (Number (Val (Fin 1)))"
    by (simp add: evaluate_defs xsub_def)
  show "stack (exec extended_runtime (Number (Val (Fin 5))) (TOp CHR ''^'')
         \<lparr>rpn = [], stack = [Number (Val (Fin 0))]\<rparr>)
       = [Number (Val (Fin 1))]"
    by (simp add: evaluate_defs)
qed

text \<open>
  C10, as amended. The equation \<open>x=\<close>, whose right-hand side is empty, compiles
  without an error to the program \<open>x -\<close>, and the compiled function returns
  \<open>NaN\<close> at every argument. A binary operator that finds one operand \<open>b\<close> on the
  stack, or none, pops \<open>undefined\<close> for what is missing and raises nothing. It
  then pushes \<open>NaN\<close> for \<open>- * /\<close>; for \<open>+\<close> it pushes \<open>NaN\<close> unless \<open>b\<close> is a
  string or an object, when it pushes the string \<open>"undefined"\<close> followed by \<open>b\<close>;
  for \<open>^\<close> it pushes \<open>Math.pow(NaN, b)\<close>. The one check of the evaluator is made
  after the loop: it raises exactly when the final stack does not hold one value.
\<close>

theorem empty_rhs_compiles_to_NaN_function:
  "compile rt ''x='' = Inr [TVar, TOp CHR ''-'']
   \<and> (\<forall>xValue. evaluate rt [TVar, TOp CHR ''-''] xValue = Inr (Number NaN))
   \<and> stack (exec rt xValue (TOp CHR ''-'') \<lparr>rpn = p, stack = [b]\<rparr>) = [Number NaN]
   \<and> stack (exec rt xValue (TOp CHR ''*'') \<lparr>rpn = p, stack = [b]\<rparr>) = [Number NaN]
   \<and> stack (exec rt xValue (TOp CHR ''/'') \<lparr>rpn = p, stack = [b]\<rparr>) = [Number NaN]
   \<and> stack (exec rt xValue (TOp CHR ''+'') \<lparr>rpn = p, stack = [b]\<rparr>)
       = [if concatenates b then Str (ToString rt Undefined @ ToString rt b) else Number NaN]
   \<and> stack (exec rt xValue (TOp CHR ''^'') \<lparr>rpn = p, stack = [b]\<rparr>)
       = [Number (Math_pow rt NaN (ToNumber rt b))]
   \<and> stack (exec rt xValue (TOp CHR ''-'') \<lparr>rpn = p, stack = []\<rparr>) = [Number NaN]
   \<and> stack (exec rt xValue (TOp CHR ''*'') \<lparr>rpn = p, stack = []\<rparr>) = [Number NaN]
   \<and> stack (exec rt xValue (TOp CHR ''/'') \<lparr>rpn = p, stack = []\<rparr>) = [Number NaN]
   \<and> stack (exec rt xValue (TOp CHR ''+'') \<lparr>rpn = p, stack = []\<rparr>) = [Number NaN]
   \<and> stack (exec rt xValue (TOp CHR ''^'') \<lparr>rpn = p, stack = []\<rparr>)
       = [Number (Math_pow rt NaN NaN)]
   \<and> ((evaluate rt p xValue = Inl InvalidStructure)
        = (length (stack (evaluate_loop rt xValue 0 \<lparr>rpn = p, stack = []\<rparr>)) \<noteq> 1))
   \<and> ((\<exists>v. evaluate rt p xValue = Inr v)
        = (length (stack (evaluate_loop rt xValue 0 \<lparr>rpn = p, stack = []\<rparr>)) = 1))"
proof (intro conjI allI)
  show "compile rt ''x='' = Inr [TVar, TOp CHR ''-'']"
    by (simp add: compile_defs)
  show "evaluate rt [TVar, TOp CHR ''-''] xValue = Inr (Number NaN)" for xValue
    by (simp add: evaluate_defs)
  show "stack (exec rt xValue (TOp CHR ''-'') \<lparr>rpn = p, stack = [b]\<rparr>) = [Number NaN]"
    by (simp add: evaluate_defs)
  show "stack (exec rt xValue (TOp CHR ''*'') \<lparr>rpn = p, stack = [b]\<rparr>) = [Number NaN]"
    by (simp add: evaluate_defs)
  show "stack (exec rt xValue (TOp CHR ''/'') \<lparr>rpn = p, stack = [b]\<rparr>) = [Number NaN]"
    by (simp add: evaluate_defs)
  show "stack (exec rt xValue (TOp CHR ''+'') \<lparr>rpn = p, stack = [b]\<rparr>)
       = [if concatenates b then Str (ToString rt Undefined @ ToString rt b) else Number NaN]"
    by (simp add: evaluate_defs)
  show "stack (exec rt xValue (TOp CHR ''^'') \<lparr>rpn = p, stack = [b]\<rparr>)
       = [Number (Math_pow rt NaN (ToNumber rt b))]"
    by (simp add: evaluate_defs)
  show "stack (exec rt xValue (TOp CHR ''-'') \<lparr>rpn = p, stack = []\<rparr>) = [Number NaN]"
    by (simp add: evaluate_defs)
  show "stack (exec rt xValue (TOp CHR ''*'') \<lparr>rpn = p, stack = []\<rparr>) = [Number NaN]"
    by (simp add: evaluate_defs)
  show "stack (exec rt xValue (TOp CHR ''/'') \<lparr>rpn = p, stack = []\<rparr>) = [Number NaN]"
    by (simp add: evaluate_defs)
  show "stack (exec rt xValue (TOp CHR ''+'') \<lparr>rpn = p, stack = []\<rparr>) = [Number NaN]"
    by (simp add: evaluate_defs)
  show "stack (exec rt xValue (TOp CHR ''^'') \<lparr>rpn = p, stack = []\<rparr>)
       = [Number (Math_pow rt NaN NaN)]"
    by (simp add: evaluate_defs)
  show "(evaluate rt p xValue = Inl InvalidStructure)
        = (length (stack (evaluate_loop rt xValue 0 \<lparr>rpn = p, stack = []\<rparr>)) \<noteq> 1)"
    by (simp add: evaluate_def call_def Let_def split: list.splits)
  show "(\<exists>v. evaluate rt p xValue = Inr v)
        = (length (stack (evaluate_loop rt xValue 0 \<lparr>rpn = p, stack = []\<rparr>)) = 1)"
    by (simp add: evaluate_def call_def Let_def split: list.splits)
qed


section \<open>Properties of the solvers\<close>

subsection \<open>The secant loop\<close>

lemma findRoot_loop_sound:
  "findRoot_loop f rnd i tr x0 f0 x1 f1 = (Inr r, tr') \<Longrightarrow> \<bar>f r\<bar> < EPSILON"
proof (induction f rnd i tr x0 f0 x1 f1 rule: findRoot_loop.induct)
  case (1 f rnd i tr x0 f0 x1 f1)
  show ?case
  proof (cases "i < MAX_ITER")
    case False
    with "1.prems" show ?thesis by (subst (asm) findRoot_loop.simps) auto
  next
    case True
    show ?thesis
    proof (cases "\<bar>f1 - f0\<bar> < 1 / 10 ^ 14")
      case deg: True
      from "1.prems" True deg "1.IH"(1)[OF True deg refl refl] show ?thesis
        by (subst (asm) findRoot_loop.simps) (auto simp: Let_def)
    next
      case nondeg: False
      show ?thesis
      proof (cases "\<bar>f (x1 - f1 * (x1 - x0) / (f1 - f0))\<bar> < EPSILON")
        case True
        with \<open>i < MAX_ITER\<close> nondeg "1.prems" show ?thesis
          by (subst (asm) findRoot_loop.simps) (auto simp: Let_def)
      next
        case False
        from "1.prems" \<open>i < MAX_ITER\<close> nondeg False
          "1.IH"(2)[OF \<open>i < MAX_ITER\<close> nondeg refl refl refl False] show ?thesis
          by (subst (asm) findRoot_loop.simps) (auto simp: Let_def)
      qed
    qed
  qed
qed

lemma findRoot_loop_counts:
  "findRoot_loop f rnd i tr x0 f0 x1 f1 = (res, tr') \<Longrightarrow>
     perturbs tr' + secants tr' + i \<le> perturbs tr + secants tr + max i MAX_ITER
     \<and> perturbs tr \<le> perturbs tr' \<and> secants tr \<le> secants tr'
     \<and> draws tr' + perturbs tr = draws tr + perturbs tr' \<and> calls tr' = calls tr"
proof (induction f rnd i tr x0 f0 x1 f1 arbitrary: res tr' rule: findRoot_loop.induct)
  case (1 f rnd i tr x0 f0 x1 f1)
  show ?case
  proof (cases "i < MAX_ITER")
    case False
    with "1.prems" show ?thesis by (subst (asm) findRoot_loop.simps) auto
  next
    case True
    show ?thesis
    proof (cases "\<bar>f1 - f0\<bar> < 1 / 10 ^ 14")
      case deg: True
      from "1.prems" True deg "1.IH"(1)[OF True deg refl refl, of res tr'] show ?thesis
        by (subst (asm) findRoot_loop.simps) (auto simp: Let_def)
    next
      case nondeg: False
      show ?thesis
      proof (cases "\<bar>f (x1 - f1 * (x1 - x0) / (f1 - f0))\<bar> < EPSILON")
        case True
        with \<open>i < MAX_ITER\<close> nondeg "1.prems" show ?thesis
          by (subst (asm) findRoot_loop.simps) (auto simp: Let_def)
      next
        case False
        from "1.prems" \<open>i < MAX_ITER\<close> nondeg False
          "1.IH"(2)[OF \<open>i < MAX_ITER\<close> nondeg refl refl refl False, of res tr'] show ?thesis
          by (subst (asm) findRoot_loop.simps) (auto simp: Let_def)
      qed
    qed
  qed
qed


lemma findRoot_loop_constant:
  "i \<le> MAX_ITER \<Longrightarrow>
   findRoot_loop (\<lambda>x. c) rnd i tr x0 c x1 c =
     (Inl RootNotConverged,
      tr\<lparr>draws := draws tr + (MAX_ITER - i), perturbs := perturbs tr + (MAX_ITER - i)\<rparr>)"
proof (induction "MAX_ITER - i" arbitrary: i tr x1)
  case 0
  then show ?case by (subst findRoot_loop.simps) simp
next
  case (Suc k)
  then have lt: "i < MAX_ITER" and k: "k = MAX_ITER - Suc i" and le: "Suc i \<le> MAX_ITER" by auto
  have "findRoot_loop (\<lambda>x. c) rnd i tr x0 c x1 c =
        findRoot_loop (\<lambda>x. c) rnd (Suc i)
          (tr\<lparr>draws := draws tr + 1, perturbs := perturbs tr + 1\<rparr>) x0 c
          (x1 + (rnd (draws tr) - 0.5) * 0.1) c"
    by (subst findRoot_loop.simps) (simp add: lt Let_def)
  also have "\<dots> = (Inl RootNotConverged,
      tr\<lparr>draws := draws tr + (MAX_ITER - i), perturbs := perturbs tr + (MAX_ITER - i)\<rparr>)"
    using lt by (simp add: Suc.hyps(1)[OF k le])
  finally show ?case .
qed

lemma findRoot_constant:
  "\<not> \<bar>c\<bar> < EPSILON \<Longrightarrow>
   findRoot (\<lambda>x. c) rnd guess tr =
     (Inl RootNotConverged,
      tr\<lparr>draws := draws tr + MAX_ITER, perturbs := perturbs tr + MAX_ITER, calls := calls tr + 1\<rparr>)"
  by (simp add: findRoot_def Let_def findRoot_loop_constant)

lemma perturbation_range:
  fixes u x1 :: real
  assumes "0 \<le> u" and "u < 1"
  shows "\<bar>(x1 + (u - 0.5) * 0.1) - x1\<bar> \<le> 0.05"
proof -
  have e: "(x1 + (u - 0.5) * 0.1) - x1 = (u - 1 / 2) / 10" by simp
  have "\<bar>u - 1 / 2\<bar> \<le> 1 / 2" using assms by linarith
  then have "\<bar>(u - 1 / 2) / 10\<bar> \<le> 1 / 20" by (simp add: abs_divide)
  then show ?thesis unfolding e by simp
qed


lemmas findRoot_eval = findRoot_def findRoot_loop.simps EPSILON_def MAX_ITER_def Let_def

text \<open>
  C5. Whatever \<open>f\<close>, the guess and the random numbers drawn: a value \<open>r\<close> that
  \<open>findRoot\<close> returns satisfies \<open>|f(r)| < 1e-8\<close>. When \<open>|f(guess)| < 1e-8\<close> at
  entry, \<open>guess\<close> itself is returned, and the only change of the state is the count
  of the call: no iteration of the loop ran, no secant step and no perturbation.
  Otherwise, when \<open>|f(guess + 0.1)| < 1e-8\<close>, \<open>guess + 0.1\<close> is returned in the
  same way.
\<close>

theorem findRoot_returns_near_zero:
  "(findRoot f rnd guess tr = (Inr r, tr') \<longrightarrow> \<bar>f r\<bar> < EPSILON)
   \<and> (\<bar>f guess\<bar> < EPSILON \<longrightarrow>
        findRoot f rnd guess tr = (Inr guess, tr\<lparr>calls := calls tr + 1\<rparr>))
   \<and> (\<not> \<bar>f guess\<bar> < EPSILON \<and> \<bar>f (guess + 0.1)\<bar> < EPSILON \<longrightarrow>
        findRoot f rnd guess tr = (Inr (guess + 0.1), tr\<lparr>calls := calls tr + 1\<rparr>))"
proof (intro conjI impI)
  assume ret: "findRoot f rnd guess tr = (Inr r, tr')"
  show "\<bar>f r\<bar> < EPSILON"
  proof (cases "\<bar>f guess\<bar> < EPSILON")
    case True
    with ret show ?thesis by (simp add: findRoot_def Let_def)
  next
    case False
    show ?thesis
    proof (cases "\<bar>f (guess + 0.1)\<bar> < EPSILON")
      case True
      with False ret show ?thesis by (auto simp: findRoot_def Let_def)
    next
      case f1: False
      with False ret have
        "findRoot_loop f rnd 0 (tr\<lparr>calls := calls tr + 1\<rparr>) guess (f guess) (guess + 0.1) (f (guess + 0.1))
           = (Inr r, tr')"
        by (simp add: findRoot_def Let_def)
      then show ?thesis by (rule findRoot_loop_sound)
    qed
  qed
next
  assume "\<bar>f guess\<bar> < EPSILON"
  then show "findRoot f rnd guess tr = (Inr guess, tr\<lparr>calls := calls tr + 1\<rparr>)"
    by (simp add: findRoot_def Let_def)
next
  assume "\<not> \<bar>f guess\<bar> < EPSILON \<and> \<bar>f (guess + 0.1)\<bar> < EPSILON"
  then show "findRoot f rnd guess tr = (Inr (guess + 0.1), tr\<lparr>calls := calls tr + 1\<rparr>)"
    by (simp add: findRoot_def Let_def)
qed

theorem findRoot_returns_near_zero_witness:
  "findRoot (\<lambda>x. x) (\<lambda>k. 1 / 2) (1 / 2) \<lparr>draws = 0, perturbs = 0, secants = 0, calls = 0\<rparr>
     = (Inr 0, \<lparr>draws = 0, perturbs = 0, secants = 1, calls = 1\<rparr>)
   \<and> \<bar>(\<lambda>x. x) (0 :: real)\<bar> < EPSILON
   \<and> findRoot (\<lambda>x. x) (\<lambda>k. 1 / 2) 0 \<lparr>draws = 0, perturbs = 0, secants = 0, calls = 0\<rparr>
     = (Inr 0, \<lparr>draws = 0, perturbs = 0, secants = 0, calls = 1\<rparr>)
   \<and> \<not> \<bar>(\<lambda>x. x) (- 1 / 10 :: real)\<bar> < EPSILON
   \<and> \<bar>(\<lambda>x. x) (- 1 / 10 + 0.1 :: real)\<bar> < EPSILON
   \<and> findRoot (\<lambda>x. x) (\<lambda>k. 1 / 2) (- 1 / 10) \<lparr>draws = 0, perturbs = 0, secants = 0, calls = 0\<rparr>
     = (Inr (- 1 / 10 + 0.1), \<lparr>draws = 0, perturbs = 0, secants = 0, calls = 1\<rparr>)"
proof -
  let ?t = "\<lparr>draws = 0, perturbs = 0, secants = 0, calls = 0\<rparr>"
  have run: "findRoot (\<lambda>x. x) (\<lambda>k. 1 / 2) (1 / 2) ?t
      = (Inr 0, \<lparr>draws = 0, perturbs = 0, secants = 1, calls = 1\<rparr>)"
    by (simp add: findRoot_eval)
  have a: "\<bar>(\<lambda>x. x) (0 :: real)\<bar> < EPSILON" by (simp add: EPSILON_def)
  have b: "\<not> \<bar>(\<lambda>x. x) (- 1 / 10 :: real)\<bar> < EPSILON \<and> \<bar>(\<lambda>x. x) (- 1 / 10 + 0.1 :: real)\<bar> < EPSILON"
    by (simp add: EPSILON_def)
  note T = findRoot_returns_near_zero
  from T [of "\<lambda>x. x" "\<lambda>k. 1 / 2" "1 / 2" ?t 0 "\<lparr>draws = 0, perturbs = 0, secants = 1, calls = 1\<rparr>"] run
  have "\<bar>(\<lambda>x. x) (0 :: real)\<bar> < EPSILON" by blast
  moreover from T [of "\<lambda>x. x" "\<lambda>k. 1 / 2" 0 ?t] a
  have "findRoot (\<lambda>x. x) (\<lambda>k. 1 / 2) 0 ?t = (Inr 0, ?t\<lparr>calls := calls ?t + 1\<rparr>)" by blast
  moreover from T [of "\<lambda>x. x" "\<lambda>k. 1 / 2" "- 1 / 10" ?t] b
  have "findRoot (\<lambda>x. x) (\<lambda>k. 1 / 2) (- 1 / 10) ?t = (Inr (- 1 / 10 + 0.1), ?t\<lparr>calls := calls ?t + 1\<rparr>)"
    by blast
  ultimately show ?thesis using run b by simp
qed

subsection \<open>The budgets of the loops\<close>

lemma findRoot_counts:
  assumes "findRoot f rnd guess tr = (res, tr')"
  shows "iterations tr' \<le> iterations tr + MAX_ITER \<and> iterations tr \<le> iterations tr'
         \<and> calls tr' = calls tr + 1"
proof (cases "\<bar>f guess\<bar> < EPSILON \<or> \<bar>f (guess + 0.1)\<bar> < EPSILON")
  case True
  with assms show ?thesis by (auto simp: findRoot_def Let_def iterations_def split: if_splits)
next
  case False
  with assms have
    "findRoot_loop f rnd 0 (tr\<lparr>calls := calls tr + 1\<rparr>) guess (f guess) (guess + 0.1) (f (guess + 0.1))
       = (res, tr')"
    by (simp add: findRoot_def Let_def)
  from findRoot_loop_counts [OF this] show ?thesis by (simp add: iterations_def)
qed

lemma try_push_counts:
  "iterations (snd (try_push f rnd guess st)) \<le> iterations (snd st) + MAX_ITER
   \<and> iterations (snd st) \<le> iterations (snd (try_push f rnd guess st))
   \<and> calls (snd (try_push f rnd guess st)) = calls (snd st) + 1"
proof -
  obtain res tr' where r: "findRoot f rnd guess (snd st) = (res, tr')"
    by (cases "findRoot f rnd guess (snd st)")
  from findRoot_counts [OF r] r show ?thesis
    by (cases res) (simp_all add: try_push_def)
qed

lemma sweep_counts:
  "iterations (snd (sweep f rnd xStart dx steps i prevX prevY st))
     \<le> iterations (snd st) + MAX_ITER * (steps + 1 - i)
   \<and> calls (snd (sweep f rnd xStart dx steps i prevX prevY st)) \<le> calls (snd st) + (steps + 1 - i)"
proof (induction f rnd xStart dx steps i prevX prevY st rule: sweep.induct)
  case (1 f rnd xStart dx steps i prevX prevY st)
  show ?case
  proof (cases "i \<le> steps")
    case False
    then show ?thesis by (subst (1 2) sweep.simps) simp
  next
    case True
    define currX where "currX = xStart + real i * dx"
    define st' where
      "st' = (if prevY * f currX \<le> 0 then try_push f rnd ((prevX + currX) / 2) st else st)"
    have unfold: "sweep f rnd xStart dx steps i prevX prevY st
        = sweep f rnd xStart dx steps (i + 1) currX (f currX) st'"
      using True by (subst sweep.simps) (simp add: Let_def currX_def st'_def)
    have IH: "iterations (snd (sweep f rnd xStart dx steps (i + 1) currX (f currX) st'))
          \<le> iterations (snd st') + MAX_ITER * (steps + 1 - (i + 1))
        \<and> calls (snd (sweep f rnd xStart dx steps (i + 1) currX (f currX) st'))
          \<le> calls (snd st') + (steps + 1 - (i + 1))"
      using "1.IH" [OF True currX_def refl st'_def] .
    have step: "iterations (snd st') \<le> iterations (snd st) + MAX_ITER
        \<and> calls (snd st') \<le> calls (snd st) + 1"
      using try_push_counts [of f rnd "(prevX + currX) / 2" st] by (simp add: st'_def)
    have arith: "MAX_ITER * (steps + 1 - i) = MAX_ITER + MAX_ITER * (steps + 1 - (i + 1))"
      using True by (simp add: Suc_diff_le flip: mult_Suc_right)
    from IH step True show ?thesis unfolding unfold arith by linarith
  qed
qed

lemma candidates_counts:
  "iterations (snd (candidates f rnd guess rng steps tr)) \<le> iterations tr + MAX_ITER * (steps + 1)
   \<and> calls (snd (candidates f rnd guess rng steps tr)) \<le> calls tr + steps + 1"
proof -
  define st where "st = try_push f rnd guess ([], tr)"
  have c: "candidates f rnd guess rng steps tr
      = sweep f rnd (guess - rng) ((guess + rng - (guess - rng)) / real steps) steps 1
          (guess - rng) (f (guess - rng)) st"
    by (simp add: candidates_def Let_def st_def)
  have s: "iterations (snd st) \<le> iterations tr + MAX_ITER \<and> calls (snd st) = calls tr + 1"
    using try_push_counts [of f rnd guess "([], tr)"] by (simp add: st_def)
  from sweep_counts [of f rnd "guess - rng" "(guess + rng - (guess - rng)) / real steps" steps 1
      "guess - rng" "f (guess - rng)" st] s
  show ?thesis unfolding c by simp
qed

lemma snd_findAllRoots:
  "snd (findAllRoots f rnd guess rng steps tr) = snd (candidates f rnd guess rng steps tr)"
  by (simp add: findAllRoots_def Let_def split: prod.splits)

lemma findRoot_loop_outcome:
  "(\<exists>r. fst (findRoot_loop f rnd i tr x0 f0 x1 f1) = Inr r)
   \<or> fst (findRoot_loop f rnd i tr x0 f0 x1 f1) = Inl RootNotConverged"
proof (induction f rnd i tr x0 f0 x1 f1 rule: findRoot_loop.induct)
  case (1 f rnd i tr x0 f0 x1 f1)
  show ?case
  proof (cases "i < MAX_ITER")
    case False
    then show ?thesis by (subst (1 2) findRoot_loop.simps) simp
  next
    case True
    show ?thesis
    proof (cases "\<bar>f1 - f0\<bar> < 1 / 10 ^ 14")
      case deg: True
      from True deg "1.IH"(1)[OF True deg refl refl] show ?thesis
        by (subst (1 2) findRoot_loop.simps) (simp add: Let_def)
    next
      case nondeg: False
      show ?thesis
      proof (cases "\<bar>f (x1 - f1 * (x1 - x0) / (f1 - f0))\<bar> < EPSILON")
        case True
        with \<open>i < MAX_ITER\<close> nondeg show ?thesis
          by (subst (1 2) findRoot_loop.simps) (simp add: Let_def)
      next
        case False
        from \<open>i < MAX_ITER\<close> nondeg False
          "1.IH"(2)[OF \<open>i < MAX_ITER\<close> nondeg refl refl refl False] show ?thesis
          by (subst (1 2) findRoot_loop.simps) (simp add: Let_def)
      qed
    qed
  qed
qed

lemma findRoot_outcome:
  "(\<exists>r. fst (findRoot f rnd guess tr) = Inr r) \<or> fst (findRoot f rnd guess tr) = Inl RootNotConverged"
  using findRoot_loop_outcome [of f rnd 0 "tr\<lparr>calls := calls tr + 1\<rparr>" guess "f guess" "guess + 0.1" "f (guess + 0.1)"]
  by (auto simp: findRoot_def Let_def)

lemma findAllRoots_outcome:
  "(\<exists>rs. fst (findAllRoots f rnd guess rng steps tr) = Inr rs)
   \<or> fst (findAllRoots f rnd guess rng steps tr) = Inl NoRootFound"
  by (simp add: findAllRoots_def Let_def split: prod.splits)

text \<open>
  C8. \<open>findRoot\<close> and \<open>findAllRoots\<close> are total: their loops are defined by
  recursion on what is left of their budgets (\<open>MAX_ITER - i\<close> for the secant
  loop, \<open>steps + 1 - i\<close> for the sweep), so for every \<open>f\<close>, guess and random
  stream each returns a result or raises its one error. A call of \<open>findRoot\<close>
  runs at most 1000 iterations of its loop; \<open>findAllRoots\<close> makes at most
  \<open>steps + 1\<close> calls of \<open>findRoot\<close>, one seeded at the guess and at most one for
  each of the \<open>steps\<close> subdivisions of the sweep, hence at most
  \<open>1000 * (steps + 1)\<close> iterations in all.
\<close>

theorem solvers_stay_within_budget:
  "((\<exists>r. fst (findRoot f rnd guess tr) = Inr r) \<or> fst (findRoot f rnd guess tr) = Inl RootNotConverged)
   \<and> iterations (snd (findRoot f rnd guess tr)) \<le> iterations tr + 1000
   \<and> calls (snd (findRoot f rnd guess tr)) = calls tr + 1
   \<and> ((\<exists>rs. fst (findAllRoots f rnd guess rng steps tr) = Inr rs)
        \<or> fst (findAllRoots f rnd guess rng steps tr) = Inl NoRootFound)
   \<and> calls (snd (findAllRoots f rnd guess rng steps tr)) \<le> calls tr + steps + 1
   \<and> iterations (snd (findAllRoots f rnd guess rng steps tr)) \<le> iterations tr + 1000 * (steps + 1)"
proof -
  obtain res tr' where r: "findRoot f rnd guess tr = (res, tr')"
    by (cases "findRoot f rnd guess tr")
  from findRoot_counts [OF r] r candidates_counts [of f rnd guess rng steps tr]
  have "iterations (snd (findRoot f rnd guess tr)) \<le> iterations tr + 1000
   \<and> calls (snd (findRoot f rnd guess tr)) = calls tr + 1
   \<and> calls (snd (findAllRoots f rnd guess rng steps tr)) \<le> calls tr + steps + 1
   \<and> iterations (snd (findAllRoots f rnd guess rng steps tr)) \<le> iterations tr + 1000 * (steps + 1)"
    by (simp add: snd_findAllRoots MAX_ITER_def)
  with findRoot_outcome [of f rnd guess tr] findAllRoots_outcome [of f rnd guess rng steps tr]
  show ?thesis by blast
qed


subsection \<open>The perturbation\<close>

text \<open>
  C4 (corrected). As the claim states it, a perturbation would leave the budget of
  1000 iterations untouched. In the code the perturbing branch ends with
  \<open>continue\<close>, which runs the \<open>i++\<close> of the \<open>for\<close> loop. On the constant
  function 1 every iteration perturbs: the call fails after 1000 perturbations and
  not one secant step, the whole budget spent on perturbations.
\<close>

theorem perturbations_use_up_the_budget:
  "findRoot (\<lambda>x. 1) (\<lambda>k. 1 / 2) 0 \<lparr>draws = 0, perturbs = 0, secants = 0, calls = 0\<rparr>
     = (Inl RootNotConverged, \<lparr>draws = 1000, perturbs = 1000, secants = 0, calls = 1\<rparr>)"
  using findRoot_constant [of 1 "\<lambda>k. 1 / 2" 0 "\<lparr>draws = 0, perturbs = 0, secants = 0, calls = 0\<rparr>"]
  by (simp add: EPSILON_def MAX_ITER_def)

text \<open>
  C4, as amended. In an iteration \<open>i\<close> of the loop where
  \<open>|f(x1) - f(x0)| < 1e-14\<close>, \<open>x1\<close> moves by \<open>(Math.random() - 0.5) * 0.1\<close>,
  an offset within \<open>[-0.05, 0.05]\<close> for a random number in \<open>[0, 1)\<close>; \<open>f(x1)\<close>
  is evaluated again and the loop goes on at iteration \<open>i + 1\<close> with \<open>x0\<close> and
  \<open>f(x0)\<close> as they were, no secant update made. The iteration counts: from
  iteration \<open>i\<close> on, perturbations and secant steps together number at most
  \<open>1000 - i\<close>.
\<close>

theorem perturbation_consumes_an_iteration:
  assumes "i < MAX_ITER" and "\<bar>f1 - f0\<bar> < 1 / 10 ^ 14"
    and "0 \<le> rnd (draws tr)" and "rnd (draws tr) < 1"
  shows "(let x1' = x1 + (rnd (draws tr) - 0.5) * 0.1
          in \<bar>x1' - x1\<bar> \<le> 0.05
           \<and> findRoot_loop f rnd i tr x0 f0 x1 f1
               = findRoot_loop f rnd (i + 1)
                   (tr\<lparr>draws := draws tr + 1, perturbs := perturbs tr + 1\<rparr>) x0 f0 x1' (f x1'))
         \<and> iterations (snd (findRoot_loop f rnd i tr x0 f0 x1 f1)) \<le> iterations tr + (MAX_ITER - i)"
proof
  have "findRoot_loop f rnd i tr x0 f0 x1 f1
      = findRoot_loop f rnd (i + 1) (tr\<lparr>draws := draws tr + 1, perturbs := perturbs tr + 1\<rparr>)
          x0 f0 (x1 + (rnd (draws tr) - 0.5) * 0.1) (f (x1 + (rnd (draws tr) - 0.5) * 0.1))"
    using assms(1,2) by (subst findRoot_loop.simps) (simp add: Let_def)
  with perturbation_range [OF assms(3,4), of x1]
  show "let x1' = x1 + (rnd (draws tr) - 0.5) * 0.1
        in \<bar>x1' - x1\<bar> \<le> 0.05
           \<and> findRoot_loop f rnd i tr x0 f0 x1 f1
               = findRoot_loop f rnd (i + 1)
                   (tr\<lparr>draws := draws tr + 1, perturbs := perturbs tr + 1\<rparr>) x0 f0 x1' (f x1')"
    unfolding Let_def by blast
  obtain res tr' where r: "findRoot_loop f rnd i tr x0 f0 x1 f1 = (res, tr')"
    by (cases "findRoot_loop f rnd i tr x0 f0 x1 f1")
  from findRoot_loop_counts [OF r] assms(1)
  have "perturbs tr' + secants tr' + i \<le> perturbs tr + secants tr + MAX_ITER" by simp
  with assms(1) have "perturbs tr' + secants tr' \<le> perturbs tr + secants tr + (MAX_ITER - i)"
    by linarith
  with r show "iterations (snd (findRoot_loop f rnd i tr x0 f0 x1 f1)) \<le> iterations tr + (MAX_ITER - i)"
    by (simp add: iterations_def)
qed

theorem perturbation_consumes_an_iteration_witness:
  "999 < MAX_ITER \<and> \<bar>(1 :: real) - 1\<bar> < 1 / 10 ^ 14 \<and> (0 :: real) \<le> 1 / 2 \<and> (1 / 2 :: real) < 1
   \<and> findRoot_loop (\<lambda>x. 1) (\<lambda>k. 1 / 2) 999 \<lparr>draws = 0, perturbs = 0, secants = 0, calls = 0\<rparr> 0 1 (1 / 10) 1
       = (Inl RootNotConverged, \<lparr>draws = 1, perturbs = 1, secants = 0, calls = 0\<rparr>)
   \<and> iterations (snd (findRoot_loop (\<lambda>x. 1) (\<lambda>k. 1 / 2) 999
         \<lparr>draws = 0, perturbs = 0, secants = 0, calls = 0\<rparr> 0 1 (1 / 10) 1)) \<le> 1"
proof -
  let ?t = "\<lparr>draws = 0, perturbs = 0, secants = 0, calls = 0\<rparr>"
  have h1: "999 < MAX_ITER" by (simp add: MAX_ITER_def)
  have h2: "\<bar>(1 :: real) - 1\<bar> < 1 / 10 ^ 14" by simp
  have h3: "(0 :: real) \<le> (\<lambda>k. 1 / 2) (draws ?t)" by simp
  have h4: "(\<lambda>k. 1 / 2 :: real) (draws ?t) < 1" by simp
  note T = perturbation_consumes_an_iteration
    [of 999 1 1 "\<lambda>k. 1 / 2" ?t "1 / 10" "\<lambda>x. 1" 0, OF h1 h2 h3 h4]
  from T have "findRoot_loop (\<lambda>x. 1) (\<lambda>k. 1 / 2) 999 ?t 0 1 (1 / 10) 1
      = findRoot_loop (\<lambda>x. 1) (\<lambda>k. 1 / 2) 1000 \<lparr>draws = 1, perturbs = 1, secants = 0, calls = 0\<rparr>
          0 1 (1 / 10) 1"
    by (simp add: Let_def)
  then have run: "findRoot_loop (\<lambda>x. 1) (\<lambda>k. 1 / 2) 999 ?t 0 1 (1 / 10) 1
      = (Inl RootNotConverged, \<lparr>draws = 1, perturbs = 1, secants = 0, calls = 0\<rparr>)"
    by (simp add: findRoot_loop.simps [of _ _ 1000] MAX_ITER_def)
  from T have "iterations (snd (findRoot_loop (\<lambda>x. 1) (\<lambda>k. 1 / 2) 999 ?t 0 1 (1 / 10) 1)) \<le> 1"
    by (simp add: iterations_def MAX_ITER_def)
  with h1 run show ?thesis by simp
qed


subsection \<open>integrate\<close>

lemma integrate_loop_sum:
  "integrate_loop f a h n i acc = acc + (\<Sum>k = i..<n. weight k * f (a + real k * h))"
proof (induction f a h n i acc rule: integrate_loop.induct)
  case (1 f a h n i acc)
  show ?case
  proof (cases "i < n")
    case False
    then show ?thesis by (subst integrate_loop.simps) simp
  next
    case True
    then have split: "(\<Sum>k = i..<n. weight k * f (a + real k * h))
        = weight i * f (a + real i * h) + (\<Sum>k = i + 1..<n. weight k * f (a + real k * h))"
      by (simp add: sum.atLeast_Suc_lessThan)
    have unfold: "integrate_loop f a h n i acc
        = integrate_loop f a h n (i + 1) (acc + weight i * f (a + real i * h))"
      using True by (subst integrate_loop.simps) (simp add: Let_def weight_def)
    show ?thesis
    proof (cases "i mod 3 = 0")
      case m: True
      have "integrate_loop f a h n (i + 1) (acc + 2 * f (a + real i * h))
          = acc + 2 * f (a + real i * h) + (\<Sum>k = i + 1..<n. weight k * f (a + real k * h))"
        using "1.IH"(1) [OF True refl m] .
      with m show ?thesis unfolding unfold split by (simp add: weight_def)
    next
      case m: False
      have "integrate_loop f a h n (i + 1) (acc + 3 * f (a + real i * h))
          = acc + 3 * f (a + real i * h) + (\<Sum>k = i + 1..<n. weight k * f (a + real k * h))"
        using "1.IH"(2) [OF True refl m] .
      with m show ?thesis unfolding unfold split by (simp add: weight_def)
    qed
  qed
qed

lemma padding:
  fixes n :: nat
  shows "(if n mod 3 \<noteq> 0 then n + (3 - n mod 3) else n) = 3 * ((n + 2) div 3)"
  by presburger

lemma lift2_NaN_right [simp]: "lift2 g a NaN = NaN"
  by (cases a) simp_all

lemma integrate_loop_num_NaN: "integrate_loop_num rt f a h n i NaN = NaN"
proof (induction "n - i" arbitrary: i)
  case 0
  then show ?case by (subst integrate_loop_num.simps) simp
next
  case (Suc k)
  then have "k = n - (i + 1)" by simp
  from Suc.hyps(1) [OF this] show ?case
    by (subst integrate_loop_num.simps) (simp add: Let_def)
qed

lemma integrate_loop_num_node:
  assumes "i \<le> k" and "k < n"
    and "f (lift2 (fadd rt) a (lift2 (fmul rt) (Val (of_count rt k)) h)) = NaN"
  shows "integrate_loop_num rt f a h n i acc = NaN"
  using assms(1)
proof (induction "k - i" arbitrary: i acc)
  case 0
  then have "i = k" by simp
  with assms(2,3) show ?case
    by (subst integrate_loop_num.simps) (simp add: Let_def integrate_loop_num_NaN)
next
  case (Suc d)
  then have lt: "i < n" and d: "d = k - (i + 1)" and le: "i + 1 \<le> k" using assms(2) by auto
  from Suc.hyps(1) [OF d le] lt show ?case
    by (subst integrate_loop_num.simps) (simp add: Let_def)
qed

lemma integrate_num_NaN:
  assumes "f a = NaN \<or> f b = NaN
    \<or> (\<exists>k. 1 \<le> k \<and> k < 3 * ((n + 2) div 3)
          \<and> f (lift2 (fadd rt) a (lift2 (fmul rt) (Val (of_count rt k))
                 (lift2 (fdiv rt) (lift2 (fsub rt) b a) (Val (of_count rt (3 * ((n + 2) div 3))))))) = NaN)"
  shows "integrate_num rt f a b n = NaN"
proof -
  define n' where "n' = 3 * ((n + 2) div 3)"
  define h where "h = lift2 (fdiv rt) (lift2 (fsub rt) b a) (Val (of_count rt n'))"
  have e: "integrate_num rt f a b n
      = lift2 (fmul rt) (lift2 (fdiv rt) (lift2 (fmul rt) (Val (of_count rt 3)) h) (Val (of_count rt 8)))
          (integrate_loop_num rt f a h n' 1 (lift2 (fadd rt) (f a) (f b)))"
    unfolding integrate_num_def Let_def padding n'_def h_def ..
  have "integrate_loop_num rt f a h n' 1 (lift2 (fadd rt) (f a) (f b)) = NaN"
    using assms
  proof (elim disjE exE conjE)
    assume "f a = NaN"
    then show ?thesis by (simp add: integrate_loop_num_NaN)
  next
    assume "f b = NaN"
    then show ?thesis by (simp add: integrate_loop_num_NaN)
  next
    fix k
    assume "1 \<le> k" "k < 3 * ((n + 2) div 3)"
      and "f (lift2 (fadd rt) a (lift2 (fmul rt) (Val (of_count rt k))
                 (lift2 (fdiv rt) (lift2 (fsub rt) b a) (Val (of_count rt (3 * ((n + 2) div 3))))))) = NaN"
    then show ?thesis
      by (intro integrate_loop_num_node [of 1 k]) (simp_all add: n'_def h_def)
  qed
  then show ?thesis by (simp add: e)
qed


lemma xadd_nonfinite: "nonfinite (Val x) \<or> nonfinite (Val y) \<Longrightarrow> nonfinite (xadd x y)"
  by (cases x; cases y) auto

lemma xmul_nonfinite: "nonfinite (Val x) \<or> nonfinite (Val y) \<Longrightarrow> nonfinite (xmul x y)"
  by (cases x; cases y) auto

lemma xsub_nonfinite: "nonfinite (Val x) \<or> nonfinite (Val y) \<Longrightarrow> nonfinite (xsub x y)"
  unfolding xsub_def by (cases x; cases y) auto

lemma xdiv_nonfinite: "nonfinite (Val x) \<Longrightarrow> nonfinite (xdiv x (Fin y))"
  by (cases x) auto

lemma nonfinite_add: "nonfinite a \<or> nonfinite b \<Longrightarrow> nonfinite (lift2 xadd a b)"
  by (cases a; cases b) (auto simp: xadd_nonfinite)

lemma nonfinite_mul: "nonfinite a \<or> nonfinite b \<Longrightarrow> nonfinite (lift2 xmul a b)"
  by (cases a; cases b) (auto simp: xmul_nonfinite)

lemma nonfinite_sub: "nonfinite a \<or> nonfinite b \<Longrightarrow> nonfinite (lift2 xsub a b)"
  by (cases a; cases b) (auto simp: xsub_nonfinite)

lemma nonfinite_div: "nonfinite a \<Longrightarrow> nonfinite (lift2 xdiv a (Val (Fin y)))"
  by (cases a) (auto simp: xdiv_nonfinite)

lemma integrate_loop_num_nonfinite_acc:
  "nonfinite acc \<Longrightarrow> nonfinite (integrate_loop_num extended_runtime g p h n i acc)"
proof (induction "n - i" arbitrary: i acc)
  case 0
  then show ?case by (subst integrate_loop_num.simps) simp
next
  case (Suc k)
  then have k: "k = n - (i + 1)" by simp
  have "nonfinite (integrate_loop_num extended_runtime g p h n (i + 1) (lift2 xadd acc t))" for t
    using Suc.hyps(1) [OF k] nonfinite_add [of acc t] Suc.prems by blast
  then show ?case
    using Suc.prems by (subst integrate_loop_num.simps) (simp add: Let_def)
qed

lemma integrate_loop_num_nonfinite_node:
  assumes "i \<le> k" and "k < n"
    and "nonfinite (g (lift2 xadd p (lift2 xmul (Val (Fin (real k))) h)))"
  shows "nonfinite (integrate_loop_num extended_runtime g p h n i acc)"
  using assms(1)
proof (induction "k - i" arbitrary: i acc)
  case 0
  then have ik: "i = k" by simp
  have "nonfinite (lift2 xadd acc (lift2 xmul w (g (lift2 xadd p (lift2 xmul (Val (Fin (real k))) h)))))" for w
    using assms(3) by (intro nonfinite_add disjI2 nonfinite_mul)
  then show ?case
    using assms(2) ik
    by (subst integrate_loop_num.simps) (simp add: Let_def integrate_loop_num_nonfinite_acc)
next
  case (Suc d)
  then have lt: "i < n" and d: "d = k - (i + 1)" and le: "i + 1 \<le> k" using assms(2) by auto
  from Suc.hyps(1) [OF d le] lt show ?case
    by (subst integrate_loop_num.simps) (simp add: Let_def)
qed

lemma integrate_num_nonfinite:
  assumes "nonfinite p \<or> nonfinite q \<or> nonfinite (g p) \<or> nonfinite (g q)
    \<or> (\<exists>k. 1 \<le> k \<and> k < 3 * ((n + 2) div 3)
          \<and> nonfinite (g (lift2 xadd p (lift2 xmul (Val (Fin (real k)))
                 (lift2 xdiv (lift2 xsub q p) (Val (Fin (real (3 * ((n + 2) div 3))))))))))"
  shows "nonfinite (integrate_num extended_runtime g p q n)"
proof -
  define n' where "n' = 3 * ((n + 2) div 3)"
  define h where "h = lift2 xdiv (lift2 xsub q p) (Val (Fin (real n')))"
  define c where "c = lift2 xdiv (lift2 xmul (Val (Fin (real 3))) h) (Val (Fin (real 8)))"
  define L where "L = integrate_loop_num extended_runtime g p h n' 1 (lift2 xadd (g p) (g q))"
  have e: "integrate_num extended_runtime g p q n = lift2 xmul c L"
    unfolding integrate_num_def Let_def padding n'_def h_def c_def L_def by simp
  from assms consider (ends) "nonfinite p \<or> nonfinite q" | (vals) "nonfinite (g p) \<or> nonfinite (g q)"
    | (node) k where "1 \<le> k" "k < n'"
        "nonfinite (g (lift2 xadd p (lift2 xmul (Val (Fin (real k))) h)))"
    unfolding n'_def h_def by blast
  then have "nonfinite c \<or> nonfinite L"
  proof cases
    case ends
    then have "nonfinite (lift2 xsub q p)" by (intro nonfinite_sub) blast
    then have "nonfinite h" unfolding h_def by (rule nonfinite_div)
    then have "nonfinite (lift2 xmul (Val (Fin (real 3))) h)" by (intro nonfinite_mul) blast
    then show ?thesis unfolding c_def by (intro disjI1 nonfinite_div)
  next
    case vals
    then have "nonfinite (lift2 xadd (g p) (g q))" by (rule nonfinite_add)
    then show ?thesis unfolding L_def by (intro disjI2 integrate_loop_num_nonfinite_acc)
  next
    case node
    then show ?thesis unfolding L_def by (intro disjI2 integrate_loop_num_nonfinite_node [of 1 k])
  qed
  then show ?thesis unfolding e by (rule nonfinite_mul)
qed

lemma integrate_loop_num_real:
  assumes "\<And>r. g (Val (Fin r)) = Val (Fin (f r))"
  shows "integrate_loop_num extended_runtime g (Val (Fin a)) (Val (Fin h)) n i (Val (Fin acc))
      = Val (Fin (integrate_loop f a h n i acc))"
proof (induction "n - i" arbitrary: i acc)
  case 0
  then show ?case
    by (subst integrate_loop_num.simps, subst integrate_loop.simps) simp
next
  case (Suc k)
  then have k: "k = n - (i + 1)" and lt: "i < n" by auto
  show ?case
    using lt Suc.hyps(1) [OF k]
    by (subst integrate_loop_num.simps, subst integrate_loop.simps) (simp add: Let_def assms)
qed

lemma integrate_num_real:
  assumes "0 < n" and "\<And>r. g (Val (Fin r)) = Val (Fin (f r))"
  shows "integrate_num extended_runtime g (Val (Fin a)) (Val (Fin b)) n = Val (Fin (integrate f a b n))"
proof -
  have pos: "0 < 3 * ((n + 2) div 3)" using assms(1) by presburger
  have loop: "integrate_loop_num extended_runtime g (Val (Fin a')) (Val (Fin h')) n' i (Val (Fin acc))
      = Val (Fin (integrate_loop f a' h' n' i acc))" for a' h' n' i acc
    using assms(2) by (rule integrate_loop_num_real [of g f])
  show ?thesis
    unfolding integrate_num_def integrate_def Let_def padding
    using pos by (simp add: xsub_def assms(2) loop)
qed


text \<open>
  C2. For a positive \<open>n\<close>, \<open>integrate(f, a, b, n)\<close> runs with \<open>n'\<close>, the next
  multiple of 3 from \<open>n\<close> on (\<open>n\<close> itself when it is one, so 12 for 10), and
  returns \<open>(3h/8) * S\<close> with \<open>h = (b - a)/n'\<close> and \<open>S\<close> the sum of \<open>f(a)\<close>,
  \<open>f(b)\<close> and \<open>w * f(a + i*h)\<close> over the interior nodes \<open>i = 1..n'-1\<close>, where
  \<open>w\<close> is 2 when \<open>i\<close> is a multiple of 3 and 3 otherwise. \<open>integrate\<close> has no
  error outcome: it returns a number for every \<open>f\<close>, \<open>a\<close>, \<open>b\<close> and \<open>n\<close>.

  On the runtime with the infinities the same code, \<open>integrate_num\<close>, returns
  that very number when the bounds and the values of \<open>f\<close> are finite; and when a
  bound, or a value of \<open>f\<close> at a bound or at an interior node, is \<open>NaN\<close> or an
  infinity, what it returns is \<open>NaN\<close> or an infinity. On every runtime, a
  \<open>NaN\<close> that \<open>f\<close> returns at \<open>a\<close>, at \<open>b\<close> or at an interior node is what
  \<open>integrate_num\<close> returns.
\<close>

theorem integrate_is_simpson_three_eighths:
  assumes "0 < n"
  shows "(let n' = 3 * ((n + 2) div 3);
              h = (b - a) / real n';
              S = f a + f b + (\<Sum>i = 1..<n'. weight i * f (a + real i * h))
          in integrate f a b n = (3 * h / 8) * S
             \<and> n' mod 3 = 0 \<and> n \<le> n' \<and> n' < n + 3)
         \<and> integrate f a b 10 = integrate f a b 12
         \<and> ((\<forall>r. gx (Val (Fin r)) = Val (Fin (f r))) \<longrightarrow>
               integrate_num extended_runtime gx (Val (Fin a)) (Val (Fin b)) n
                 = Val (Fin (integrate f a b n)))
         \<and> (let n' = 3 * ((n + 2) div 3);
                 h = lift2 xdiv (lift2 xsub qx px) (Val (Fin (real n')));
                 node = (\<lambda>i. lift2 xadd px (lift2 xmul (Val (Fin (real i))) h))
             in nonfinite px \<or> nonfinite qx \<or> nonfinite (hx px) \<or> nonfinite (hx qx)
                  \<or> (\<exists>i. 1 \<le> i \<and> i < n' \<and> nonfinite (hx (node i)))
                \<longrightarrow> nonfinite (integrate_num extended_runtime hx px qx n))
         \<and> (let n' = 3 * ((n + 2) div 3);
                 h = lift2 (fdiv rt) (lift2 (fsub rt) q p) (Val (of_count rt n'));
                 node = (\<lambda>i. lift2 (fadd rt) p (lift2 (fmul rt) (Val (of_count rt i)) h))
             in g p = NaN \<or> g q = NaN \<or> (\<exists>i. 1 \<le> i \<and> i < n' \<and> g (node i) = NaN)
                \<longrightarrow> integrate_num rt g p q n = NaN)"
proof -
  define n' where "n' = 3 * ((n + 2) div 3)"
  have bounds: "n' mod 3 = 0" "n \<le> n'" "n' < n + 3"
    unfolding n'_def by presburger+
  have "integrate f a b n
      = (3 * ((b - a) / real n') / 8)
          * (f a + f b + (\<Sum>i = 1..<n'. weight i * f (a + real i * ((b - a) / real n'))))"
    unfolding integrate_def Let_def padding integrate_loop_sum n'_def ..
  moreover have "integrate f a b 10 = integrate f a b 12"
    unfolding integrate_def Let_def padding by simp
  moreover have "integrate_num extended_runtime gx (Val (Fin a)) (Val (Fin b)) n
      = Val (Fin (integrate f a b n))"
    if "\<forall>r. gx (Val (Fin r)) = Val (Fin (f r))"
    using assms that by (intro integrate_num_real) simp_all
  moreover have "nonfinite (integrate_num extended_runtime hx px qx n)"
    if "nonfinite px \<or> nonfinite qx \<or> nonfinite (hx px) \<or> nonfinite (hx qx)
      \<or> (\<exists>i. 1 \<le> i \<and> i < n'
            \<and> nonfinite (hx (lift2 xadd px (lift2 xmul (Val (Fin (real i)))
                   (lift2 xdiv (lift2 xsub qx px) (Val (Fin (real n'))))))))"
    using that unfolding n'_def by (rule integrate_num_nonfinite)
  moreover have "integrate_num rt g p q n = NaN"
    if "g p = NaN \<or> g q = NaN
      \<or> (\<exists>i. 1 \<le> i \<and> i < n'
            \<and> g (lift2 (fadd rt) p (lift2 (fmul rt) (Val (of_count rt i))
                   (lift2 (fdiv rt) (lift2 (fsub rt) q p) (Val (of_count rt n'))))) = NaN)"
    using that unfolding n'_def by (rule integrate_num_NaN)
  ultimately show ?thesis
    using bounds unfolding Let_def n'_def by blast
qed

lemmas integrate_num_eval = integrate_num_def integrate_loop_num.simps Let_def xsub_def

theorem integrate_is_simpson_three_eighths_witness:
  "(0 :: nat) < 10 \<and> integrate (\<lambda>x. x) 0 1 10
      = (3 * (1 / 12) / 8) * (0 + 1 + (\<Sum>i = 1..<12. weight i * (real i * (1 / 12))))
   \<and> integrate (\<lambda>x. x) 0 1 10 = 1 / 2
   \<and> integrate_num extended_runtime (\<lambda>x. x) (Val (Fin 0)) (Val (Fin 1)) 10 = Val (Fin (1 / 2))
   \<and> nonfinite ((\<lambda>x. lift2 xdiv (Val (Fin 1)) x) (Val (Fin 0)))
   \<and> nonfinite (integrate_num extended_runtime (\<lambda>x. lift2 xdiv (Val (Fin 1)) x)
         (Val (Fin 0)) (Val (Fin 1)) 10)
   \<and> integrate_num extended_runtime (\<lambda>x. lift2 xdiv (Val (Fin 1)) x)
         (Val (Fin 0)) (Val (Fin 1)) 10 = Val PInf
   \<and> (\<lambda>x. if x = Val (Fin 1) then NaN else x) (Val (Fin 1)) = NaN
   \<and> integrate_num extended_runtime (\<lambda>x. if x = Val (Fin 1) then NaN else x)
         (Val (Fin 0)) (Val (Fin 1)) 10 = NaN"
proof -
  have h: "(0 :: nat) < 10" by simp
  note T = integrate_is_simpson_three_eighths
    [OF h, where f = "\<lambda>x. x" and a = 0 and b = 1 and gx = "\<lambda>x. x"
       and hx = "\<lambda>x. lift2 xdiv (Val (Fin 1)) x" and px = "Val (Fin 0)" and qx = "Val (Fin 1)"
       and rt = extended_runtime and g = "\<lambda>x. if x = Val (Fin 1) then NaN else x"
       and p = "Val (Fin 0)" and q = "Val (Fin 1)"]
  from T have e: "integrate (\<lambda>x. x) 0 1 10
      = (3 * (1 / 12) / 8) * (0 + 1 + (\<Sum>i = 1..<12. weight i * (real i * (1 / 12))))"
    by (simp add: Let_def)
  have v: "integrate (\<lambda>x. x) 0 1 10 = 1 / 2"
    unfolding e by (simp add: weight_def sum.atLeast_Suc_lessThan)
  from T have "integrate_num extended_runtime (\<lambda>x. x) (Val (Fin 0)) (Val (Fin 1)) 10
      = Val (Fin (integrate (\<lambda>x. x) 0 1 10))"
    by blast
  then have l: "integrate_num extended_runtime (\<lambda>x. x) (Val (Fin 0)) (Val (Fin 1)) 10 = Val (Fin (1 / 2))"
    by (simp add: v)
  from T have i: "nonfinite (integrate_num extended_runtime (\<lambda>x. lift2 xdiv (Val (Fin 1)) x)
         (Val (Fin 0)) (Val (Fin 1)) 10)"
    unfolding Let_def by simp
  have j: "integrate_num extended_runtime (\<lambda>x. lift2 xdiv (Val (Fin 1)) x)
         (Val (Fin 0)) (Val (Fin 1)) 10 = Val PInf"
    by (simp add: integrate_num_eval)
  from T have m: "integrate_num extended_runtime (\<lambda>x. if x = Val (Fin 1) then NaN else x)
         (Val (Fin 0)) (Val (Fin 1)) 10 = NaN"
    unfolding Let_def by simp
  from e v l i j m show ?thesis by simp
qed

subsection \<open>solveLimit\<close>

lemma integrate_zero: "integrate (\<lambda>x. 0) a b n = 0"
  by (simp add: integrate_def Let_def integrate_loop_sum)

text \<open>
  C6. \<open>solveLimit\<close> first parses the two strings. When the known limit does not
  parse to a number it fails with \<open>Known limit is invalid.\<close>, and when the area
  does not, with \<open>Area is invalid.\<close>; in both cases the outcome is the same for
  every \<open>f\<close> and the state is untouched, so \<open>f\<close> was not evaluated and nothing
  was integrated or searched. When both parse and \<open>findRoot\<close> fails on
  \<open>g(x) = integrate(f, a, b, n(width)) - targetArea\<close> from the initial guess,
  \<open>solveLimit\<close> fails with the message that the integration limit did not
  converge and the function might not reach the target area.
\<close>

theorem solveLimit_validates_then_reports:
  "(pf knownLimitStr = None \<longrightarrow>
      solveLimit pf f rnd knownLimitStr isUpperUnknown targetAreaStr tr = (Inl KnownLimitInvalid, tr))
   \<and> (pf knownLimitStr = Some k \<and> pf targetAreaStr = None \<longrightarrow>
      solveLimit pf f rnd knownLimitStr isUpperUnknown targetAreaStr tr = (Inl AreaInvalid, tr))
   \<and> (pf knownLimitStr = Some k \<and> pf targetAreaStr = Some t
        \<and> fst (findRoot (limit_g f k isUpperUnknown t) rnd (limit_guess f k isUpperUnknown t) tr) = Inl e \<longrightarrow>
      fst (solveLimit pf f rnd knownLimitStr isUpperUnknown targetAreaStr tr) = Inl LimitNotConverged)
   \<and> message KnownLimitInvalid = ''Known limit is invalid.''
   \<and> message AreaInvalid = ''Area is invalid.''
   \<and> message LimitNotConverged
       = ''Integration limit did not converge. The function might not reach the target area.''"
  by (auto simp: solveLimit_def Let_def split: prod.splits sum.splits)

theorem solveLimit_validates_then_reports_witness:
  "sample_parseFloat ''abc'' = None
   \<and> solveLimit sample_parseFloat (\<lambda>x. 0) (\<lambda>k. 1 / 2) ''abc'' True ''8'' \<lparr>draws = 0, perturbs = 0, secants = 0, calls = 0\<rparr>
       = (Inl KnownLimitInvalid, \<lparr>draws = 0, perturbs = 0, secants = 0, calls = 0\<rparr>)
   \<and> sample_parseFloat ''0'' = Some 0 \<and> sample_parseFloat ''8'' = Some 8
   \<and> solveLimit sample_parseFloat (\<lambda>x. 0) (\<lambda>k. 1 / 2) ''0'' True ''abc'' \<lparr>draws = 0, perturbs = 0, secants = 0, calls = 0\<rparr>
       = (Inl AreaInvalid, \<lparr>draws = 0, perturbs = 0, secants = 0, calls = 0\<rparr>)
   \<and> fst (findRoot (limit_g (\<lambda>x. 0) 0 True 8) (\<lambda>k. 1 / 2) (limit_guess (\<lambda>x. 0) 0 True 8)
        \<lparr>draws = 0, perturbs = 0, secants = 0, calls = 0\<rparr>) = Inl RootNotConverged
   \<and> fst (solveLimit sample_parseFloat (\<lambda>x. 0) (\<lambda>k. 1 / 2) ''0'' True ''8'' \<lparr>draws = 0, perturbs = 0, secants = 0, calls = 0\<rparr>)
       = Inl LimitNotConverged"
proof -
  let ?t = "\<lparr>draws = 0, perturbs = 0, secants = 0, calls = 0\<rparr>"
  have p1: "sample_parseFloat ''abc'' = None" and p2: "sample_parseFloat ''0'' = Some 0" and p3: "sample_parseFloat ''8'' = Some 8"
    by (simp_all add: sample_parseFloat_def)
  have g: "limit_g (\<lambda>x. 0) 0 True 8 = (\<lambda>x. - 8)"
    by (rule ext) (simp add: limit_g_def Let_def integrate_zero)
  have fail: "fst (findRoot (limit_g (\<lambda>x. 0) 0 True 8) (\<lambda>k. 1 / 2) (limit_guess (\<lambda>x. 0) 0 True 8) ?t)
      = Inl RootNotConverged"
    unfolding g by (subst findRoot_constant) (simp_all add: EPSILON_def)
  note T = solveLimit_validates_then_reports
  from T [of sample_parseFloat "''abc''" "\<lambda>x. 0" "\<lambda>k. 1 / 2" True "''8''" ?t] p1
  have a: "solveLimit sample_parseFloat (\<lambda>x. 0) (\<lambda>k. 1 / 2) ''abc'' True ''8'' ?t = (Inl KnownLimitInvalid, ?t)"
    by blast
  from T [of sample_parseFloat "''0''" "\<lambda>x. 0" "\<lambda>k. 1 / 2" True "''abc''" ?t 0] p1 p2
  have b: "solveLimit sample_parseFloat (\<lambda>x. 0) (\<lambda>k. 1 / 2) ''0'' True ''abc'' ?t = (Inl AreaInvalid, ?t)"
    by blast
  from T [of sample_parseFloat "''0''" "\<lambda>x. 0" "\<lambda>k. 1 / 2" True "''8''" ?t 0 8 RootNotConverged] p2 p3 fail
  have c: "fst (solveLimit sample_parseFloat (\<lambda>x. 0) (\<lambda>k. 1 / 2) ''0'' True ''8'' ?t) = Inl LimitNotConverged"
    by blast
  from p1 p2 p3 a b c fail show ?thesis by blast
qed


subsection \<open>findAllRoots\<close>





lemma unique_loop_Cons:
  "unique_loop (r # roots) u =
     unique_loop roots (if list_ex (\<lambda>ur. \<bar>r - ur\<bar> < 1 / 10 ^ 5) u then u else u @ [r])"
  by (simp add: Let_def)

lemma unique_loop_set: "set (unique_loop roots u) \<subseteq> set roots \<union> set u"
proof (induction roots arbitrary: u)
  case Nil
  then show ?case by simp
next
  case (Cons r roots)
  from Cons.IH [of u] Cons.IH [of "u @ [r]"] show ?case
    unfolding unique_loop_Cons by (cases "list_ex (\<lambda>ur. \<bar>r - ur\<bar> < 1 / 10 ^ 5) u") auto
qed




lemma unique_loop_prefix: "\<exists>ys. unique_loop roots u = u @ ys"
proof (induction roots arbitrary: u)
  case Nil
  then show ?case by simp
next
  case (Cons r roots)
  from Cons.IH [of u] Cons.IH [of "u @ [r]"] show ?case
    unfolding unique_loop_Cons by (cases "list_ex (\<lambda>ur. \<bar>r - ur\<bar> < 1 / 10 ^ 5) u") auto
qed

lemma unique_loop_hd: "unique_loop (c # roots) [] \<noteq> [] \<and> hd (unique_loop (c # roots) []) = c"
proof -
  obtain ys where "unique_loop roots [c] = [c] @ ys" using unique_loop_prefix by blast
  then show ?thesis by simp
qed

lemma unique_loop_Nil_iff: "unique_loop roots [] = [] \<longleftrightarrow> roots = []"
  using unique_loop_hd by (cases roots) auto
















end
